theory Spec2Isabelle
  imports
    Complex_Main
    "HOL-Library.Char_ord"
    "HOL-Library.List_Lexorder"
    "HOL-Library.Sublist"
begin

section \<open>Python values, types and exceptions\<close>

text \<open>
  The exceptions the modelled code can raise. Messages are dropped: only the class of the
  exception is kept. A function that can raise returns \<open>error + 'a\<close>, with \<open>Inl\<close> the
  exception.
\<close>

datatype error = ValueError | TypeError | KeyError | IndexError | AttributeError

text \<open>
  Attribute values are declared \<^verbatim>\<open>Any\<close> in the source. The universe below holds the
  values the attribute dictionaries talk about (\<^verbatim>\<open>str\<close>, \<^verbatim>\<open>int\<close>, \<^verbatim>\<open>float\<close>) together
  with \<^verbatim>\<open>None\<close> and \<^verbatim>\<open>bool\<close>. A \<^verbatim>\<open>float\<close> is a finite double, represented by the
  real number it denotes; comparison of finite doubles, and of a double with an integer,
  is exact in Python, so it is the comparison of these reals.
\<close>

datatype pytype = NoneType | bool_t | int_t | float_t | str_t

datatype pyval = PyNone | PyBool bool | PyInt int | PyFloat real | PyStr string

fun py_type :: "pyval \<Rightarrow> pytype" where
  "py_type PyNone = NoneType"
| "py_type (PyBool b) = bool_t"
| "py_type (PyInt i) = int_t"
| "py_type (PyFloat r) = float_t"
| "py_type (PyStr s) = str_t"

text \<open>The number a numeric value denotes (\<^verbatim>\<open>bool\<close> is a subclass of \<^verbatim>\<open>int\<close>).\<close>

fun py_num :: "pyval \<Rightarrow> real option" where
  "py_num PyNone = None"
| "py_num (PyBool b) = Some (if b then 1 else 0)"
| "py_num (PyInt i) = Some (of_int i)"
| "py_num (PyFloat r) = Some r"
| "py_num (PyStr s) = None"

text \<open>\<^verbatim>\<open>a == b\<close>: numbers compare by value, everything else structurally; never raises.\<close>

definition py_eq :: "pyval \<Rightarrow> pyval \<Rightarrow> bool" where
  "py_eq a b =
     (case (py_num a, py_num b) of
        (Some x, Some y) \<Rightarrow> x = y
      | _ \<Rightarrow> a = b)"

text \<open>
  \<^verbatim>\<open>a <= b\<close> and \<^verbatim>\<open>a < b\<close>: defined between numbers and between strings
  (lexicographic); any other pair of operands raises \<^verbatim>\<open>TypeError\<close>.
  \<^verbatim>\<open>a >= b\<close> and \<^verbatim>\<open>a > b\<close> are the reflected comparisons.
\<close>

definition py_le :: "pyval \<Rightarrow> pyval \<Rightarrow> error + bool" where
  "py_le a b =
     (case (py_num a, py_num b) of
        (Some x, Some y) \<Rightarrow> Inr (x \<le> y)
      | _ \<Rightarrow> (case (a, b) of
                (PyStr s, PyStr t) \<Rightarrow> Inr (s \<le> t)
              | _ \<Rightarrow> Inl TypeError))"

definition py_lt :: "pyval \<Rightarrow> pyval \<Rightarrow> error + bool" where
  "py_lt a b =
     (case (py_num a, py_num b) of
        (Some x, Some y) \<Rightarrow> Inr (x < y)
      | _ \<Rightarrow> (case (a, b) of
                (PyStr s, PyStr t) \<Rightarrow> Inr (s < t)
              | _ \<Rightarrow> Inl TypeError))"

definition py_ge :: "pyval \<Rightarrow> pyval \<Rightarrow> error + bool" where
  "py_ge a b = py_le b a"

definition py_gt :: "pyval \<Rightarrow> pyval \<Rightarrow> error + bool" where
  "py_gt a b = py_lt b a"

text \<open>
  Sequencing of computations that can raise, and Python's short-circuit \<^verbatim>\<open>and\<close> on
  conditions that can raise: the right operand is evaluated only when the left one is
  true, so its exception is seen only then.
\<close>

definition on_success :: "error + 'a \<Rightarrow> ('a \<Rightarrow> error + 'b) \<Rightarrow> error + 'b" where
  "on_success m f = (case m of Inl e \<Rightarrow> Inl e | Inr x \<Rightarrow> f x)"

definition and_then :: "error + bool \<Rightarrow> error + bool \<Rightarrow> error + bool" where
  "and_then a b = (case a of Inl e \<Rightarrow> Inl e | Inr c \<Rightarrow> if c then b else Inr False)"

section \<open>Attributes\<close>

text \<open>\<^verbatim>\<open>class Attribute\<close> (core/attribute.py): a name and a value.\<close>

record attribute =
  attr_name :: string
  attr_value :: pyval

text \<open>
  The four attribute classes share one constructor body and differ in their class-level
  \<^verbatim>\<open>dictionary\<close>: the name must be a key of the dictionary, and the declared type must
  be the type of the value; otherwise \<^verbatim>\<open>ValueError\<close>.
\<close>

definition ImageEntityAttribute_dictionary :: "(string \<times> pytype) list" where
  "ImageEntityAttribute_dictionary = [(''description'', str_t)]"

definition ImagePropertyAttribute_dictionary :: "(string \<times> pytype) list" where
  "ImagePropertyAttribute_dictionary = [(''description'', str_t)]"

definition ScenarioImageEntityAttribute_dictionary :: "(string \<times> pytype) list" where
  "ScenarioImageEntityAttribute_dictionary =
     [(''score'', float_t), (''min'', int_t), (''max'', int_t)]"

definition ScenarioImagePropertyAttribute_dictionary :: "(string \<times> pytype) list" where
  "ScenarioImagePropertyAttribute_dictionary = [(''score'', float_t)]"

definition ImageEntityAttribute_init :: "string \<Rightarrow> pyval \<Rightarrow> error + attribute" where
  "ImageEntityAttribute_init name v =
     (case map_of ImageEntityAttribute_dictionary name of
        None \<Rightarrow> Inl ValueError
      | Some t \<Rightarrow>
          if t \<noteq> py_type v then Inl ValueError
          else Inr \<lparr>attr_name = name, attr_value = v\<rparr>)"

definition ImagePropertyAttribute_init :: "string \<Rightarrow> pyval \<Rightarrow> error + attribute" where
  "ImagePropertyAttribute_init name v =
     (case map_of ImagePropertyAttribute_dictionary name of
        None \<Rightarrow> Inl ValueError
      | Some t \<Rightarrow>
          if t \<noteq> py_type v then Inl ValueError
          else Inr \<lparr>attr_name = name, attr_value = v\<rparr>)"

definition ScenarioImageEntityAttribute_init :: "string \<Rightarrow> pyval \<Rightarrow> error + attribute" where
  "ScenarioImageEntityAttribute_init name v =
     (case map_of ScenarioImageEntityAttribute_dictionary name of
        None \<Rightarrow> Inl ValueError
      | Some t \<Rightarrow>
          if t \<noteq> py_type v then Inl ValueError
          else Inr \<lparr>attr_name = name, attr_value = v\<rparr>)"

definition ScenarioImagePropertyAttribute_init :: "string \<Rightarrow> pyval \<Rightarrow> error + attribute" where
  "ScenarioImagePropertyAttribute_init name v =
     (case map_of ScenarioImagePropertyAttribute_dictionary name of
        None \<Rightarrow> Inl ValueError
      | Some t \<Rightarrow>
          if t \<noteq> py_type v then Inl ValueError
          else Inr \<lparr>attr_name = name, attr_value = v\<rparr>)"

text \<open>
  The constructors' loop
  \<^verbatim>\<open>for attr_name, attr_value in attributes.items(): self.attributes.append(C(attr_name, attr_value))\<close>
  over the items of the \<^verbatim>\<open>attributes\<close> dict in insertion order. The dict is the list of
  its items (a dict has no two items with the same key); \<open>acc\<close> is \<^verbatim>\<open>self.attributes\<close>
  so far. The first attribute constructor that raises ends the loop.
\<close>

fun append_attributes ::
  "(string \<Rightarrow> pyval \<Rightarrow> error + attribute) \<Rightarrow> attribute list \<Rightarrow> (string \<times> pyval) list
     \<Rightarrow> error + attribute list" where
  "append_attributes mk acc [] = Inr acc"
| "append_attributes mk acc ((n, v) # items) =
     (case mk n v of
        Inl e \<Rightarrow> Inl e
      | Inr a \<Rightarrow> append_attributes mk (acc @ [a]) items)"

text \<open>
  \<^verbatim>\<open>get_attribute_value\<close> (the same in every class that has it): the value of the first
  attribute with the given name, \<^verbatim>\<open>None\<close> when there is none.
\<close>

fun get_attribute_value :: "attribute list \<Rightarrow> string \<Rightarrow> pyval" where
  "get_attribute_value [] name = PyNone"
| "get_attribute_value (a # as) name =
     (if attr_name a = name then attr_value a else get_attribute_value as name)"

section \<open>Perception entities\<close>

text \<open>
  \<^verbatim>\<open>ImageRequirement\<close> and its two subclasses \<^verbatim>\<open>ImageEntity\<close> and \<^verbatim>\<open>ImageProperty\<close>.
  \<open>req_class\<close> is \<^verbatim>\<open>type(self)\<close>.
\<close>

datatype requirement_class = ImageEntity | ImageProperty

record image_requirement =
  req_class :: requirement_class
  req_name :: string
  req_attributes :: "attribute list"

text \<open>The right operand of \<^verbatim>\<open>__eq__\<close> can be any object.\<close>

datatype pyobj = Requirement image_requirement | Plain pyval

definition ImageRequirement_eq :: "image_requirement \<Rightarrow> pyobj \<Rightarrow> bool" where
  "ImageRequirement_eq self other =
     (case other of
        Requirement r \<Rightarrow>
          if req_class r = req_class self then req_name self = req_name r else False
      | Plain v \<Rightarrow> False)"

text \<open>
  \<^verbatim>\<open>__hash__\<close> returns \<^verbatim>\<open>hash(self.name)\<close>. Python's hash of a string is a function of
  the string, fixed within a process; it is the parameter \<open>hash_str\<close>.
\<close>

definition ImageRequirement_hash :: "(string \<Rightarrow> int) \<Rightarrow> image_requirement \<Rightarrow> int" where
  "ImageRequirement_hash hash_str self = hash_str (req_name self)"

definition ImageEntity_init :: "string \<Rightarrow> (string \<times> pyval) list \<Rightarrow> error + image_requirement" where
  "ImageEntity_init name attributes =
     on_success (append_attributes ImageEntityAttribute_init [] attributes)
       (\<lambda>attrs. Inr \<lparr>req_class = ImageEntity, req_name = name, req_attributes = attrs\<rparr>)"

definition ImageProperty_init :: "string \<Rightarrow> (string \<times> pyval) list \<Rightarrow> error + image_requirement" where
  "ImageProperty_init name attributes =
     on_success (append_attributes ImagePropertyAttribute_init [] attributes)
       (\<lambda>attrs. Inr \<lparr>req_class = ImageProperty, req_name = name, req_attributes = attrs\<rparr>)"

section \<open>Sessions and perception snapshots\<close>

text \<open>
  Modelled from the spec: the classes \<^verbatim>\<open>ImageObjectPrediction\<close>,
  \<^verbatim>\<open>ImagePropertyPrediction\<close>, \<^verbatim>\<open>ImagePrediction\<close> and \<^verbatim>\<open>Session\<close> of the agent
  package are not among the sources. The spec gives a snapshot two ordered sequences,
  object-detection results (an entity identity and a score each) and property-detection
  results (a property identity and a score each), and lets the snapshot of a session be
  absent. Only the fields the scenario leaves read are kept.
\<close>

record image_object_prediction =
  iop_image_entity :: image_requirement
  iop_score :: real

record image_property_prediction =
  ipp_image_property :: image_requirement
  ipp_score :: real

record image_prediction =
  image_object_predictions :: "image_object_prediction list"
  image_property_predictions :: "image_property_prediction list"

record session =
  session_image_prediction :: "image_prediction option"

section \<open>Scenario requirement leaves\<close>

subsection \<open>ScenarioImageEntity\<close>

record scenario_image_entity =
  sie_name :: string
  sie_image_entity :: image_requirement
  sie_attributes :: "attribute list"

text \<open>
  \<^verbatim>\<open>ScenarioImageEntity.__init__\<close>: the attributes are built from the dict; \<^verbatim>\<open>score\<close>
  is mandatory; \<^verbatim>\<open>min\<close> defaults to 1 and \<^verbatim>\<open>max\<close> to 0, appended when absent; then
  the range checks \<^verbatim>\<open>min < 1\<close> and \<^verbatim>\<open>min > max and max != 0\<close>.
\<close>

definition ScenarioImageEntity_init ::
  "string \<Rightarrow> image_requirement \<Rightarrow> (string \<times> pyval) list \<Rightarrow> error + scenario_image_entity" where
  "ScenarioImageEntity_init name image_entity attributes =
     on_success (append_attributes ScenarioImageEntityAttribute_init [] attributes) (\<lambda>attrs0.
     if ''score'' \<notin> set (map attr_name attrs0) then Inl ValueError
     else
     on_success
       (if ''min'' \<notin> set (map attr_name attrs0)
        then on_success (ScenarioImageEntityAttribute_init ''min'' (PyInt 1))
               (\<lambda>a. Inr (attrs0 @ [a]))
        else Inr attrs0) (\<lambda>attrs1.
     on_success
       (if ''max'' \<notin> set (map attr_name attrs1)
        then on_success (ScenarioImageEntityAttribute_init ''max'' (PyInt 0))
               (\<lambda>a. Inr (attrs1 @ [a]))
        else Inr attrs1) (\<lambda>attrs2.
     let min_value = get_attribute_value attrs2 ''min'';
         max_value = get_attribute_value attrs2 ''max''
     in
     on_success (py_lt min_value (PyInt 1)) (\<lambda>min_lt_1.
     if min_lt_1 then Inl ValueError
     else
     on_success (and_then (py_gt min_value max_value) (Inr (\<not> py_eq max_value (PyInt 0)))) (\<lambda>bad_range.
     if bad_range then Inl ValueError
     else Inr \<lparr>sie_name = name, sie_image_entity = image_entity,
               sie_attributes = attrs2\<rparr>)))))"

text \<open>
  The list comprehension of \<^verbatim>\<open>evaluate\<close>: the predictions whose entity equals the leaf's
  entity and whose score is at least the threshold, in order. The comparison with the
  threshold is evaluated only for the predictions of the leaf's entity.
\<close>

fun filtered_image_object_predictions ::
  "image_requirement \<Rightarrow> pyval \<Rightarrow> image_object_prediction list
     \<Rightarrow> error + image_object_prediction list" where
  "filtered_image_object_predictions ent score [] = Inr []"
| "filtered_image_object_predictions ent score (p # ps) =
     on_success
       (and_then (Inr (ImageRequirement_eq (iop_image_entity p) (Requirement ent)))
                 (py_ge (PyFloat (iop_score p)) score)) (\<lambda>keep.
     on_success (filtered_image_object_predictions ent score ps) (\<lambda>rest.
     Inr (if keep then p # rest else rest)))"

definition ScenarioImageEntity_evaluate :: "scenario_image_entity \<Rightarrow> session \<Rightarrow> error + bool" where
  "ScenarioImageEntity_evaluate self sess =
     (case session_image_prediction sess of
        None \<Rightarrow> Inr False
      | Some prediction \<Rightarrow>
          let min_value = get_attribute_value (sie_attributes self) ''min'';
              max_value = get_attribute_value (sie_attributes self) ''max'';
              score = get_attribute_value (sie_attributes self) ''score''
          in
          on_success
            (filtered_image_object_predictions (sie_image_entity self) score
               (image_object_predictions prediction)) (\<lambda>filtered.
          let num_predictions = PyInt (int (length filtered)) in
          if py_eq num_predictions (PyInt 0) then Inr False
          else if py_eq min_value (PyInt 0) \<and> py_eq max_value (PyInt 0) then Inr True
          else
          on_success (and_then (Inr (py_eq min_value (PyInt 0))) (py_le num_predictions max_value)) (\<lambda>c2.
          if c2 then Inr True
          else
          on_success (and_then (Inr (py_eq max_value (PyInt 0))) (py_ge num_predictions min_value)) (\<lambda>c3.
          if c3 then Inr True
          else
          on_success (and_then (py_le min_value num_predictions) (py_le num_predictions max_value)) (\<lambda>c4.
          if c4 then Inr True
          else Inr False)))))"

subsection \<open>ScenarioImageProperty\<close>

record scenario_image_property =
  sip_name :: string
  sip_image_property :: image_requirement
  sip_attributes :: "attribute list"

definition ScenarioImageProperty_init ::
  "string \<Rightarrow> image_requirement \<Rightarrow> (string \<times> pyval) list \<Rightarrow> error + scenario_image_property" where
  "ScenarioImageProperty_init name image_property attributes =
     on_success (append_attributes ScenarioImagePropertyAttribute_init [] attributes) (\<lambda>attrs.
     if ''score'' \<notin> set (map attr_name attrs) then Inl ValueError
     else Inr \<lparr>sip_name = name, sip_image_property = image_property,
               sip_attributes = attrs\<rparr>)"

text \<open>
  The loop of \<^verbatim>\<open>ScenarioImageProperty.evaluate\<close>: it returns \<^verbatim>\<open>True\<close> at the first
  prediction of the leaf's property with a score at least the threshold, and \<^verbatim>\<open>False\<close>
  when the predictions are exhausted.
\<close>

fun any_image_property_prediction ::
  "image_requirement \<Rightarrow> pyval \<Rightarrow> image_property_prediction list \<Rightarrow> error + bool" where
  "any_image_property_prediction prop score [] = Inr False"
| "any_image_property_prediction prop score (p # ps) =
     on_success
       (and_then (Inr (ImageRequirement_eq (ipp_image_property p) (Requirement prop)))
                 (py_ge (PyFloat (ipp_score p)) score)) (\<lambda>found.
     if found then Inr True else any_image_property_prediction prop score ps)"

definition ScenarioImageProperty_evaluate ::
  "scenario_image_property \<Rightarrow> session \<Rightarrow> error + bool" where
  "ScenarioImageProperty_evaluate self sess =
     (case session_image_prediction sess of
        None \<Rightarrow> Inr False
      | Some prediction \<Rightarrow>
          let score = get_attribute_value (sip_attributes self) ''score'' in
          any_image_property_prediction (sip_image_property self) score
            (image_property_predictions prediction))"

section \<open>Boolean expressions\<close>

datatype boolean_operator = AND | OR | NOT

text \<open>
  \<^verbatim>\<open>Expression\<close> with its variants: the composite \<^verbatim>\<open>BooleanExpression\<close> (an operator
  and the list of its children) and the two leaves.
\<close>

datatype expression =
    BooleanExpression boolean_operator "expression list"
  | ScenarioImageEntity scenario_image_entity
  | ScenarioImageProperty scenario_image_property

text \<open>\<^verbatim>\<open>BooleanExpression.__init__\<close>: the arity checks, then the fields are stored.\<close>

definition BooleanExpression_init ::
  "boolean_operator \<Rightarrow> expression list \<Rightarrow> error + expression" where
  "BooleanExpression_init operator expressions =
     (if operator \<in> set [AND, OR] \<and> length expressions < 2 then Inl ValueError
      else if operator = NOT \<and> length expressions \<noteq> 1 then Inl ValueError
      else Inr (BooleanExpression operator expressions))"

text \<open>The helpers \<^verbatim>\<open>AND\<close>, \<^verbatim>\<open>OR\<close> and \<^verbatim>\<open>NOT\<close> of the module.\<close>

definition AND_of :: "expression list \<Rightarrow> error + expression" where
  "AND_of expressions = BooleanExpression_init AND expressions"

definition OR_of :: "expression list \<Rightarrow> error + expression" where
  "OR_of expressions = BooleanExpression_init OR expressions"

definition NOT_of :: "expression \<Rightarrow> error + expression" where
  "NOT_of e = BooleanExpression_init NOT [e]"

text \<open>
  \<^verbatim>\<open>evaluate\<close>. For \<^verbatim>\<open>AND\<close> and \<^verbatim>\<open>OR\<close> the list comprehension evaluates every child,
  in order, before \<^verbatim>\<open>all\<close> or \<^verbatim>\<open>any\<close> looks at the results (\<open>evaluate_each\<close>): an
  exception in any child is an exception of the node. \<^verbatim>\<open>NOT\<close> reads
  \<^verbatim>\<open>self.expressions[0]\<close>, which raises \<^verbatim>\<open>IndexError\<close> on an empty list.
\<close>

fun evaluate :: "expression \<Rightarrow> session \<Rightarrow> error + bool"
  and evaluate_each :: "expression list \<Rightarrow> session \<Rightarrow> error + bool list" where
  "evaluate (BooleanExpression AND es) sess =
     (case evaluate_each es sess of Inl e \<Rightarrow> Inl e | Inr bs \<Rightarrow> Inr (list_all (\<lambda>b. b) bs))"
| "evaluate (BooleanExpression OR es) sess =
     (case evaluate_each es sess of Inl e \<Rightarrow> Inl e | Inr bs \<Rightarrow> Inr (list_ex (\<lambda>b. b) bs))"
| "evaluate (BooleanExpression NOT []) sess = Inl IndexError"
| "evaluate (BooleanExpression NOT (c # cs)) sess =
     (case evaluate c sess of Inl e \<Rightarrow> Inl e | Inr b \<Rightarrow> Inr (\<not> b))"
| "evaluate (ScenarioImageEntity leaf) sess = ScenarioImageEntity_evaluate leaf sess"
| "evaluate (ScenarioImageProperty leaf) sess = ScenarioImageProperty_evaluate leaf sess"
| "evaluate_each [] sess = Inr []"
| "evaluate_each (c # cs) sess =
     (case evaluate c sess of
        Inl e \<Rightarrow> Inl e
      | Inr b \<Rightarrow> (case evaluate_each cs sess of Inl e \<Rightarrow> Inl e | Inr bs \<Rightarrow> Inr (b # bs)))"

text \<open>
  The expressions that the constructors can produce: a leaf returned by its constructor,
  or a composite returned by \<^verbatim>\<open>BooleanExpression.__init__\<close> on such expressions.
\<close>

inductive constructed :: "expression \<Rightarrow> bool" where
  entity_leaf:
    "ScenarioImageEntity_init name ent attributes = Inr leaf
       \<Longrightarrow> constructed (ScenarioImageEntity leaf)"
| property_leaf:
    "ScenarioImageProperty_init name prop attributes = Inr leaf
       \<Longrightarrow> constructed (ScenarioImageProperty leaf)"
| composite:
    "\<forall>c \<in> set es. constructed c \<Longrightarrow> BooleanExpression_init operator es = Inr e
       \<Longrightarrow> constructed e"

section \<open>Event library\<close>

text \<open>
  Modelled from the spec: the classes \<^verbatim>\<open>Session\<close>, \<^verbatim>\<open>Intent\<close>, \<^verbatim>\<open>ImageObject\<close>,
  the intent prediction, the received file and the image prediction of the bot package
  are not among the sources. The spec gives a session a mapping \<^verbatim>\<open>flags\<close> from strings
  to booleans with the keys \<^verbatim>\<open>predicted_intent\<close>, \<^verbatim>\<open>file\<close> and \<^verbatim>\<open>image_prediction\<close>,
  a predicted intent, a file with a \<^verbatim>\<open>type\<close> string and an image prediction with
  object-detection results, the last three valid only when their flag is true (they are
  optional here; reading a field of \<^verbatim>\<open>None\<close> raises \<^verbatim>\<open>AttributeError\<close>). The image
  objects are values of a type \<open>'obj\<close>, and their \<^verbatim>\<open>==\<close> is a parameter.
\<close>

record intent =
  intent_name :: string

record intent_classifier_prediction =
  icp_intent :: intent

record file_object =
  file_type :: string

record 'obj bot_image_object_prediction =
  biop_image_object :: 'obj
  biop_score :: real

record 'obj bot_image_prediction =
  bot_image_object_predictions :: "'obj bot_image_object_prediction list"

record 'obj bot_session =
  flags :: "string \<rightharpoonup> bool"
  predicted_intent :: "intent_classifier_prediction option"
  received_file :: "file_object option"
  bot_image_prediction :: "'obj bot_image_prediction option"

text \<open>
  The \<^verbatim>\<open>event_params\<close> dict: one optional field for each key the predicates read (a key
  is present or not). \<^verbatim>\<open>allowed_types\<close> holds a list of type names or a single name.
\<close>

datatype allowed_types = TypeList "string list" | TypeName string

record 'obj event_params =
  param_intent :: "intent option"
  param_allowed_types :: "allowed_types option"
  param_image_object :: "'obj option"
  param_score :: "real option"

text \<open>\<^verbatim>\<open>d[k]\<close> on a dict raises \<^verbatim>\<open>KeyError\<close> when the key is absent.\<close>

definition subscript :: "'v option \<Rightarrow> error + 'v" where
  "subscript entry = (case entry of None \<Rightarrow> Inl KeyError | Some v \<Rightarrow> Inr v)"

definition field_of :: "'v option \<Rightarrow> error + 'v" where
  "field_of obj = (case obj of None \<Rightarrow> Inl AttributeError | Some v \<Rightarrow> Inr v)"

text \<open>
  \<^verbatim>\<open>intent_matched\<close> has a single \<^verbatim>\<open>return\<close>, inside the \<^verbatim>\<open>if\<close>: when the flag is false
  the function ends without one and its value is \<^verbatim>\<open>None\<close>. The result is
  \<open>Some b\<close> for the boolean \<open>b\<close> and \<open>None\<close> for \<^verbatim>\<open>None\<close>.
\<close>

definition intent_matched ::
  "'obj bot_session \<Rightarrow> 'obj event_params \<Rightarrow> error + bool option" where
  "intent_matched sess event_params =
     on_success (subscript (flags sess ''predicted_intent'')) (\<lambda>flag.
     if flag then
       on_success (subscript (param_intent event_params)) (\<lambda>target_intent.
       on_success (field_of (predicted_intent sess)) (\<lambda>prediction.
       Inr (Some (intent_name target_intent = intent_name (icp_intent prediction)))))
     else Inr None)"

text \<open>
  \<^verbatim>\<open>x in allowed_types\<close> is membership in a list and the substring test on a string;
  \<^verbatim>\<open>x == allowed_types\<close> is false for a list.
\<close>

definition file_received :: "'obj bot_session \<Rightarrow> 'obj event_params \<Rightarrow> error + bool" where
  "file_received sess event_params =
     on_success (subscript (flags sess ''file'')) (\<lambda>flag.
     if flag then
       (case param_allowed_types event_params of
          Some allowed \<Rightarrow>
            on_success (field_of (received_file sess)) (\<lambda>f.
            if (case allowed of
                  TypeList ts \<Rightarrow> file_type f \<in> set ts
                | TypeName t \<Rightarrow> sublist (file_type f) t)
               \<or> (case allowed of
                    TypeList ts \<Rightarrow> False
                  | TypeName t \<Rightarrow> file_type f = t)
            then Inr True
            else Inr False)
        | None \<Rightarrow> Inr True)
     else Inr False)"

definition image_object_detected ::
  "('obj \<Rightarrow> 'obj \<Rightarrow> bool) \<Rightarrow> 'obj bot_session \<Rightarrow> 'obj event_params \<Rightarrow> error + bool" where
  "image_object_detected obj_eq sess event_params =
     on_success (subscript (flags sess ''image_prediction'')) (\<lambda>flag.
     if flag then
       on_success (subscript (param_image_object event_params)) (\<lambda>target_image_object.
       on_success (subscript (param_score event_params)) (\<lambda>target_score.
       on_success (field_of (bot_image_prediction sess)) (\<lambda>prediction.
       Inr (list_ex
              (\<lambda>p. obj_eq (biop_image_object p) target_image_object
                    \<and> target_score \<le> biop_score p)
              (bot_image_object_predictions prediction)))))
     else Inr False)"

section \<open>Notions used to state the properties\<close>

text \<open>
  A prediction qualifies for a leaf when its entity equals the leaf's entity and its score
  is at least the threshold; \<open>qualifying_count\<close> is the number of such predictions in a
  snapshot.
\<close>

definition qualifies :: "image_requirement \<Rightarrow> real \<Rightarrow> image_object_prediction \<Rightarrow> bool" where
  "qualifies ent s p \<longleftrightarrow>
     ImageRequirement_eq (iop_image_entity p) (Requirement ent) \<and> s \<le> iop_score p"

definition qualifying_count :: "image_requirement \<Rightarrow> real \<Rightarrow> image_prediction \<Rightarrow> int" where
  "qualifying_count ent s prediction =
     int (length (filter (qualifies ent s) (image_object_predictions prediction)))"

text \<open>
  The attribute an item of the \<^verbatim>\<open>attributes\<close> dict becomes, and the condition under
  which an attribute constructor accepts the item: the name is a key of the class
  dictionary and the declared type is the type of the value.
\<close>

definition as_attribute :: "string \<times> pyval \<Rightarrow> attribute" where
  "as_attribute item = \<lparr>attr_name = fst item, attr_value = snd item\<rparr>"

definition conforms :: "(string \<times> pytype) list \<Rightarrow> string \<times> pyval \<Rightarrow> bool" where
  "conforms dictionary item \<longleftrightarrow> map_of dictionary (fst item) = Some (py_type (snd item))"

text \<open>
  The value a constructor call works with for a name: the one given in the dict, or the
  default. \<open>completed\<close> is the attribute list of a \<^verbatim>\<open>ScenarioImageEntity\<close> after the
  defaults for \<^verbatim>\<open>min\<close> and \<^verbatim>\<open>max\<close> have been appended.
\<close>

definition given_or :: "(string \<times> pyval) list \<Rightarrow> string \<Rightarrow> pyval \<Rightarrow> pyval" where
  "given_or items n dflt = (case map_of items n of None \<Rightarrow> dflt | Some v \<Rightarrow> v)"

definition completed :: "(string \<times> pyval) list \<Rightarrow> attribute list" where
  "completed items =
     map as_attribute items
     @ (if ''min'' \<in> fst ` set items then [] else [as_attribute (''min'', PyInt 1)])
     @ (if ''max'' \<in> fst ` set items then [] else [as_attribute (''max'', PyInt 0)])"

section \<open>Auxiliary facts\<close>

lemma on_success_simps:
  "on_success (Inl e) f = Inl e"
  "on_success (Inr x) f = f x"
  by (simp_all add: on_success_def)

lemma and_then_simps:
  "and_then (Inl e) b = Inl e"
  "and_then (Inr True) b = b"
  "and_then (Inr False) b = Inr False"
  by (simp_all add: and_then_def)

lemma py_int_compare:
  "py_eq (PyInt a) (PyInt b) = (a = b)"
  "py_le (PyInt a) (PyInt b) = Inr (a \<le> b)"
  "py_lt (PyInt a) (PyInt b) = Inr (a < b)"
  "py_ge (PyInt a) (PyInt b) = Inr (b \<le> a)"
  "py_gt (PyInt a) (PyInt b) = Inr (b < a)"
  by (simp_all add: py_eq_def py_le_def py_lt_def py_ge_def py_gt_def)

lemma py_float_ge: "py_ge (PyFloat a) (PyFloat b) = Inr (b \<le> a)"
  by (simp add: py_ge_def py_le_def)

lemma filtered_with_float_score:
  "filtered_image_object_predictions ent (PyFloat s) ps = Inr (filter (qualifies ent s) ps)"
  by (induction ps) (simp_all add: on_success_simps and_then_def py_float_ge qualifies_def)

lemma any_with_float_score:
  "any_image_property_prediction prop (PyFloat s) ps =
     Inr (\<exists>p \<in> set ps. ImageRequirement_eq (ipp_image_property p) (Requirement prop)
                        \<and> s \<le> ipp_score p)"
  by (induction ps) (auto simp add: on_success_simps and_then_def py_float_ge)

lemma evaluate_by_table:
  assumes "get_attribute_value (sie_attributes leaf) ''score'' = PyFloat s"
    and "get_attribute_value (sie_attributes leaf) ''min'' = PyInt mn"
    and "get_attribute_value (sie_attributes leaf) ''max'' = PyInt mx"
    and "session_image_prediction sess = Some prediction"
  shows "ScenarioImageEntity_evaluate leaf sess =
           Inr (let c = qualifying_count (sie_image_entity leaf) s prediction in
                c \<noteq> 0 \<and> (mn = 0 \<and> mx = 0 \<or> mn = 0 \<and> c \<le> mx \<or> mx = 0 \<and> mn \<le> c
                          \<or> mn \<le> c \<and> c \<le> mx))"
  using assms
  by (simp add: ScenarioImageEntity_evaluate_def filtered_with_float_score on_success_simps
      py_int_compare and_then_def qualifying_count_def Let_def)

lemma ScenarioImageEntityAttribute_init_conforms:
  "ScenarioImageEntityAttribute_init n v =
     (if conforms ScenarioImageEntityAttribute_dictionary (n, v)
      then Inr (as_attribute (n, v)) else Inl ValueError)"
  by (auto simp add: ScenarioImageEntityAttribute_init_def conforms_def as_attribute_def
      split: option.splits)

lemma ScenarioImagePropertyAttribute_init_conforms:
  "ScenarioImagePropertyAttribute_init n v =
     (if conforms ScenarioImagePropertyAttribute_dictionary (n, v)
      then Inr (as_attribute (n, v)) else Inl ValueError)"
  by (auto simp add: ScenarioImagePropertyAttribute_init_def conforms_def as_attribute_def
      split: option.splits)

lemma append_attributes_conforms:
  assumes "\<And>n v. mk n v = (if conforms d (n, v) then Inr (as_attribute (n, v)) else Inl ValueError)"
  shows "append_attributes mk acc items =
           (if \<forall>item \<in> set items. conforms d item
            then Inr (acc @ map as_attribute items) else Inl ValueError)"
proof (induction items arbitrary: acc)
  case Nil
  show ?case by simp
next
  case (Cons item items)
  obtain n v where item: "item = (n, v)" by (cases item)
  show ?case
    using assms [of n v] by (simp add: item Cons.IH)
qed

lemma get_attribute_value_append:
  "get_attribute_value (xs @ ys) n =
     (if n \<in> set (map attr_name xs) then get_attribute_value xs n
      else get_attribute_value ys n)"
  by (induction xs) simp_all

lemma get_attribute_value_items:
  "get_attribute_value (map as_attribute items) n =
     (case map_of items n of None \<Rightarrow> PyNone | Some v \<Rightarrow> v)"
  by (induction items) (auto simp add: as_attribute_def)

lemma attr_name_as_attribute: "attr_name (as_attribute item) = fst item"
  by (simp add: as_attribute_def)

lemma attr_value_as_attribute: "attr_value (as_attribute item) = snd item"
  by (simp add: as_attribute_def)

lemma names_as_attribute: "attr_name ` as_attribute ` set items = fst ` set items"
  by (simp add: image_image attr_name_as_attribute)

lemma key_iff_lookup: "n \<in> fst ` set items \<longleftrightarrow> map_of items n \<noteq> None"
  by (simp add: map_of_eq_None_iff)

lemma conforms_entity_cases:
  "conforms ScenarioImageEntityAttribute_dictionary (n, v) \<longleftrightarrow>
     (n = ''score'' \<and> (\<exists>s. v = PyFloat s)) \<or> (n = ''min'' \<and> (\<exists>i. v = PyInt i))
     \<or> (n = ''max'' \<and> (\<exists>i. v = PyInt i))"
  by (cases v) (auto simp add: conforms_def ScenarioImageEntityAttribute_dictionary_def)

lemma conforms_property_cases:
  "conforms ScenarioImagePropertyAttribute_dictionary (n, v) \<longleftrightarrow>
     n = ''score'' \<and> (\<exists>s. v = PyFloat s)"
  by (cases v) (auto simp add: conforms_def ScenarioImagePropertyAttribute_dictionary_def)

lemma conforming_lookup:
  assumes "\<forall>item \<in> set items. conforms d item" and "map_of items n = Some v"
  shows "conforms d (n, v)"
  using assms by (auto dest: map_of_SomeD)

lemma get_completed:
  "get_attribute_value (completed items) ''score'' = given_or items ''score'' PyNone"
  "get_attribute_value (completed items) ''min'' = given_or items ''min'' (PyInt 1)"
  "get_attribute_value (completed items) ''max'' = given_or items ''max'' (PyInt 0)"
  by (auto simp add: completed_def get_attribute_value_append get_attribute_value_items
      names_as_attribute attr_name_as_attribute attr_value_as_attribute given_or_def
      key_iff_lookup split: option.splits)

lemma ScenarioImageEntity_init_unfolded:
  "ScenarioImageEntity_init name ent items =
     (if \<not> (\<forall>item \<in> set items. conforms ScenarioImageEntityAttribute_dictionary item)
      then Inl ValueError
      else if ''score'' \<notin> fst ` set items then Inl ValueError
      else
        on_success (py_lt (given_or items ''min'' (PyInt 1)) (PyInt 1)) (\<lambda>min_lt_1.
        if min_lt_1 then Inl ValueError
        else
        on_success (and_then (py_gt (given_or items ''min'' (PyInt 1))
                                    (given_or items ''max'' (PyInt 0)))
                      (Inr (\<not> py_eq (given_or items ''max'' (PyInt 0)) (PyInt 0))))
          (\<lambda>bad_range.
        if bad_range then Inl ValueError
        else Inr \<lparr>sie_name = name, sie_image_entity = ent,
                  sie_attributes = completed items\<rparr>)))"
proof -
  have mk: "ScenarioImageEntityAttribute_init ''min'' (PyInt 1) = Inr (as_attribute (''min'', PyInt 1))"
       "ScenarioImageEntityAttribute_init ''max'' (PyInt 0) = Inr (as_attribute (''max'', PyInt 0))"
    by (simp_all add: ScenarioImageEntityAttribute_init_conforms conforms_entity_cases)
  have loop: "append_attributes ScenarioImageEntityAttribute_init [] items =
           (if \<forall>item \<in> set items. conforms ScenarioImageEntityAttribute_dictionary item
            then Inr (map as_attribute items) else Inl ValueError)"
    using append_attributes_conforms [of ScenarioImageEntityAttribute_init
        ScenarioImageEntityAttribute_dictionary "[]" items]
    by (simp add: ScenarioImageEntityAttribute_init_conforms)
  let ?A = "map as_attribute items"
  let ?B = "?A @ (if ''min'' \<in> fst ` set items then [] else [as_attribute (''min'', PyInt 1)])"
  have names: "set (map attr_name ?A) = fst ` set items"
    by (simp add: image_image attr_name_as_attribute)
  have step1: "(if ''min'' \<notin> set (map attr_name ?A)
                then on_success (ScenarioImageEntityAttribute_init ''min'' (PyInt 1))
                       (\<lambda>a. Inr (?A @ [a]))
                else Inr ?A) = Inr ?B"
    unfolding names by (simp add: mk on_success_simps)
  have names_B: "''max'' \<in> set (map attr_name ?B) \<longleftrightarrow> ''max'' \<in> fst ` set items"
    by (simp add: image_image attr_name_as_attribute image_Un)
  have step2: "(if ''max'' \<notin> set (map attr_name ?B)
                then on_success (ScenarioImageEntityAttribute_init ''max'' (PyInt 0))
                       (\<lambda>a. Inr (?B @ [a]))
                else Inr ?B) = Inr (completed items)"
    unfolding names_B by (simp add: mk on_success_simps completed_def)
  show ?thesis
  proof (cases "\<forall>item \<in> set items. conforms ScenarioImageEntityAttribute_dictionary item")
    case False
    with loop have "append_attributes ScenarioImageEntityAttribute_init [] items = Inl ValueError"
      by simp
    with False show ?thesis
      unfolding ScenarioImageEntity_init_def by (simp only: on_success_simps if_True simp_thms)
  next
    case True
    with loop have "append_attributes ScenarioImageEntityAttribute_init [] items = Inr ?A"
      by simp
    with True show ?thesis
      unfolding ScenarioImageEntity_init_def
      apply (simp only: on_success_simps)
      apply (simp only: step1 on_success_simps)
      apply (simp only: step2 on_success_simps Let_def get_completed)
      apply (simp only: names)
      apply simp
      done
  qed
qed

lemma ScenarioImageProperty_init_unfolded:
  "ScenarioImageProperty_init name prop items =
     (if \<not> (\<forall>item \<in> set items. conforms ScenarioImagePropertyAttribute_dictionary item)
      then Inl ValueError
      else if ''score'' \<notin> fst ` set items then Inl ValueError
      else Inr \<lparr>sip_name = name, sip_image_property = prop,
                sip_attributes = map as_attribute items\<rparr>)"
proof -
  have loop: "append_attributes ScenarioImagePropertyAttribute_init [] items =
           (if \<forall>item \<in> set items. conforms ScenarioImagePropertyAttribute_dictionary item
            then Inr (map as_attribute items) else Inl ValueError)"
    using append_attributes_conforms [of ScenarioImagePropertyAttribute_init
        ScenarioImagePropertyAttribute_dictionary "[]" items]
    by (simp add: ScenarioImagePropertyAttribute_init_conforms)
  have names: "set (map attr_name (map as_attribute items)) = fst ` set items"
    by (simp add: image_image attr_name_as_attribute)
  show ?thesis
  proof (cases "\<forall>item \<in> set items. conforms ScenarioImagePropertyAttribute_dictionary item")
    case False
    with loop have "append_attributes ScenarioImagePropertyAttribute_init [] items = Inl ValueError"
      by simp
    with False show ?thesis
      unfolding ScenarioImageProperty_init_def by (simp only: on_success_simps if_True simp_thms)
  next
    case True
    with loop have "append_attributes ScenarioImagePropertyAttribute_init [] items
                      = Inr (map as_attribute items)"
      by simp
    with True show ?thesis
      unfolding ScenarioImageProperty_init_def
      apply (simp only: on_success_simps names)
      apply simp
      done
  qed
qed

lemma given_conforms:
  assumes "\<forall>item \<in> set items. conforms d item" and "n \<in> fst ` set items"
  shows "\<exists>v. map_of items n = Some v \<and> conforms d (n, v)"
proof -
  from assms(2) obtain v where v: "map_of items n = Some v"
    by (auto simp add: key_iff_lookup)
  with assms(1) have "conforms d (n, v)" by (rule conforming_lookup)
  with v show ?thesis by blast
qed

lemma given_or_entity_typed:
  assumes "\<forall>item \<in> set items. conforms ScenarioImageEntityAttribute_dictionary item"
  shows "\<exists>mn. given_or items ''min'' (PyInt 1) = PyInt mn"
    and "\<exists>mx. given_or items ''max'' (PyInt 0) = PyInt mx"
    and "''score'' \<in> fst ` set items \<Longrightarrow> \<exists>s. given_or items ''score'' PyNone = PyFloat s"
proof -
  show "\<exists>mn. given_or items ''min'' (PyInt 1) = PyInt mn"
  proof (cases "map_of items ''min''")
    case None
    then show ?thesis by (simp add: given_or_def)
  next
    case (Some v)
    with assms have "conforms ScenarioImageEntityAttribute_dictionary (''min'', v)"
      by (rule conforming_lookup)
    with Some show ?thesis by (auto simp add: given_or_def conforms_entity_cases)
  qed
  show "\<exists>mx. given_or items ''max'' (PyInt 0) = PyInt mx"
  proof (cases "map_of items ''max''")
    case None
    then show ?thesis by (simp add: given_or_def)
  next
    case (Some v)
    with assms have "conforms ScenarioImageEntityAttribute_dictionary (''max'', v)"
      by (rule conforming_lookup)
    with Some show ?thesis by (auto simp add: given_or_def conforms_entity_cases)
  qed
  show "\<exists>s. given_or items ''score'' PyNone = PyFloat s" if "''score'' \<in> fst ` set items"
  proof -
    from given_conforms [OF assms that] obtain v where
      "map_of items ''score'' = Some v" "conforms ScenarioImageEntityAttribute_dictionary (''score'', v)"
      by blast
    then show ?thesis by (auto simp add: given_or_def conforms_entity_cases)
  qed
qed

lemma ScenarioImageEntity_init_Inr:
  assumes "ScenarioImageEntity_init name ent items = Inr leaf"
  shows "\<exists>s mn mx.
           given_or items ''score'' PyNone = PyFloat s
         \<and> given_or items ''min'' (PyInt 1) = PyInt mn
         \<and> given_or items ''max'' (PyInt 0) = PyInt mx
         \<and> 1 \<le> mn \<and> (mx = 0 \<or> mn \<le> mx)
         \<and> (\<forall>item \<in> set items. conforms ScenarioImageEntityAttribute_dictionary item)
         \<and> ''score'' \<in> fst ` set items
         \<and> leaf = \<lparr>sie_name = name, sie_image_entity = ent, sie_attributes = completed items\<rparr>"
proof -
  from assms have ok: "\<forall>item \<in> set items. conforms ScenarioImageEntityAttribute_dictionary item"
    and score: "''score'' \<in> fst ` set items"
    by (auto simp add: ScenarioImageEntity_init_unfolded split: if_splits)
  from given_or_entity_typed [OF ok] score obtain s mn mx where
    typed: "given_or items ''score'' PyNone = PyFloat s"
      "given_or items ''min'' (PyInt 1) = PyInt mn"
      "given_or items ''max'' (PyInt 0) = PyInt mx"
    by blast
  from assms ok score typed
  have "1 \<le> mn \<and> (mx = 0 \<or> mn \<le> mx)
      \<and> leaf = \<lparr>sie_name = name, sie_image_entity = ent, sie_attributes = completed items\<rparr>"
    by (auto simp add: ScenarioImageEntity_init_unfolded on_success_simps py_int_compare
        and_then_def split: if_splits)
  with typed ok score show ?thesis by blast
qed

lemma ScenarioImageEntity_init_stored:
  assumes "ScenarioImageEntity_init name ent items = Inr leaf"
  shows "\<exists>s mn mx.
           get_attribute_value (sie_attributes leaf) ''score'' = PyFloat s
         \<and> get_attribute_value (sie_attributes leaf) ''min'' = PyInt mn
         \<and> get_attribute_value (sie_attributes leaf) ''max'' = PyInt mx
         \<and> 1 \<le> mn \<and> (mx = 0 \<or> mn \<le> mx)"
  using ScenarioImageEntity_init_Inr [OF assms] by (auto simp add: get_completed)

lemma ScenarioImageProperty_init_stored:
  assumes "ScenarioImageProperty_init name prop items = Inr leaf"
  shows "\<exists>s. get_attribute_value (sip_attributes leaf) ''score'' = PyFloat s"
proof -
  from assms have ok: "\<forall>item \<in> set items. conforms ScenarioImagePropertyAttribute_dictionary item"
    and score: "''score'' \<in> fst ` set items"
    and leaf: "sip_attributes leaf = map as_attribute items"
    by (auto simp add: ScenarioImageProperty_init_unfolded split: if_splits)
  from given_conforms [OF ok score] obtain v where
    "map_of items ''score'' = Some v" "conforms ScenarioImagePropertyAttribute_dictionary (''score'', v)"
    by blast
  then show ?thesis
    by (auto simp add: leaf get_attribute_value_items conforms_property_cases)
qed

lemma ScenarioImageEntity_init_rejects_small_min:
  assumes "given_or items ''min'' (PyInt 1) = PyInt mn" and "mn < 1"
  shows "ScenarioImageEntity_init name ent items = Inl ValueError"
  using assms
  by (simp add: ScenarioImageEntity_init_unfolded on_success_simps py_int_compare)

lemma ScenarioImageEntity_init_rejects_bad_range:
  assumes "given_or items ''min'' (PyInt 1) = PyInt mn"
    and "given_or items ''max'' (PyInt 0) = PyInt mx"
    and "mx < mn" and "mx \<noteq> 0"
  shows "ScenarioImageEntity_init name ent items = Inl ValueError"
  using assms
  by (simp add: ScenarioImageEntity_init_unfolded on_success_simps py_int_compare and_then_def)

lemma unknown_name_not_conforms:
  "map_of d n = None \<Longrightarrow> \<not> conforms d (n, v)"
  by (simp add: conforms_def)

lemma wrong_type_not_conforms:
  "map_of d n = Some t \<Longrightarrow> t \<noteq> py_type v \<Longrightarrow> \<not> conforms d (n, v)"
  by (auto simp add: conforms_def)

lemma ScenarioImageEntity_init_rejects_item:
  assumes "item \<in> set items" and "\<not> conforms ScenarioImageEntityAttribute_dictionary item"
  shows "ScenarioImageEntity_init name ent items = Inl ValueError"
  using assms by (auto simp add: ScenarioImageEntity_init_unfolded)

lemma ScenarioImageProperty_init_rejects_item:
  assumes "item \<in> set items" and "\<not> conforms ScenarioImagePropertyAttribute_dictionary item"
  shows "ScenarioImageProperty_init name prop items = Inl ValueError"
  using assms by (auto simp add: ScenarioImageProperty_init_unfolded)

lemma init_rejects_missing_score:
  assumes "''score'' \<notin> fst ` set items"
  shows "ScenarioImageEntity_init name ent items = Inl ValueError"
    and "ScenarioImageProperty_init name' prop items = Inl ValueError"
  using assms
  by (simp_all add: ScenarioImageEntity_init_unfolded ScenarioImageProperty_init_unfolded)

lemma BooleanExpression_init_arity:
  "BooleanExpression_init operator es =
     (if (operator = NOT \<and> length es = 1) \<or> (operator \<noteq> NOT \<and> 2 \<le> length es)
      then Inr (BooleanExpression operator es) else Inl ValueError)"
  by (cases operator) (auto simp add: BooleanExpression_init_def)

lemma evaluate_each_returns:
  assumes "\<forall>c \<in> set es. \<exists>b. evaluate c sess = Inr b"
  shows "evaluate_each es sess = Inr (map (\<lambda>c. evaluate c sess = Inr True) es)"
  using assms by (induction es) auto

lemma entity_leaf_returns:
  assumes "ScenarioImageEntity_init name ent items = Inr leaf"
  shows "\<exists>b. ScenarioImageEntity_evaluate leaf sess = Inr b"
proof (cases "session_image_prediction sess")
  case None
  then have "ScenarioImageEntity_evaluate leaf sess = Inr False"
    by (simp add: ScenarioImageEntity_evaluate_def)
  then show ?thesis by blast
next
  case (Some prediction)
  from ScenarioImageEntity_init_stored [OF assms] obtain s mn mx where
    "get_attribute_value (sie_attributes leaf) ''score'' = PyFloat s"
    "get_attribute_value (sie_attributes leaf) ''min'' = PyInt mn"
    "get_attribute_value (sie_attributes leaf) ''max'' = PyInt mx"
    by blast
  from evaluate_by_table [OF this Some] show ?thesis by blast
qed

lemma property_leaf_returns:
  assumes "ScenarioImageProperty_init name prop items = Inr leaf"
  shows "\<exists>b. ScenarioImageProperty_evaluate leaf sess = Inr b"
proof -
  from ScenarioImageProperty_init_stored [OF assms] obtain s where
    "get_attribute_value (sip_attributes leaf) ''score'' = PyFloat s"
    by blast
  then have "ScenarioImageProperty_evaluate leaf sess = Inr False
       \<or> (\<exists>ps. ScenarioImageProperty_evaluate leaf sess =
             any_image_property_prediction (sip_image_property leaf) (PyFloat s) ps)"
    by (auto simp add: ScenarioImageProperty_evaluate_def split: option.splits)
  then show ?thesis
    by (auto simp add: any_with_float_score)
qed

lemma constructed_returns:
  assumes "constructed e"
  shows "\<exists>b. evaluate e sess = Inr b"
  using assms
proof (induction rule: constructed.induct)
  case (entity_leaf name ent items leaf)
  then show ?case by (simp add: entity_leaf_returns)
next
  case (property_leaf name property items leaf)
  then show ?case by (simp add: property_leaf_returns)
next
  case (composite es operator e)
  then have children: "\<forall>c \<in> set es. \<exists>b. evaluate c sess = Inr b"
    by blast
  note each = evaluate_each_returns [OF children]
  from composite have e: "e = BooleanExpression operator es"
    and arity: "(operator = NOT \<and> length es = 1) \<or> (operator \<noteq> NOT \<and> 2 \<le> length es)"
    by (auto simp add: BooleanExpression_init_arity split: if_splits)
  show ?case
  proof (cases operator)
    case AND
    then show ?thesis by (simp add: e each)
  next
    case OR
    then show ?thesis by (simp add: e each)
  next
    case NOT
    with arity obtain c where es: "es = [c]"
      by (cases es) auto
    with children obtain b where "evaluate c sess = Inr b" by auto
    with NOT es show ?thesis by (simp add: e)
  qed
qed

lemma constructed_composite:
  assumes "constructed (BooleanExpression operator es)"
  shows "(\<forall>c \<in> set es. constructed c)
       \<and> ((operator = NOT \<and> length es = 1) \<or> (operator \<noteq> NOT \<and> 2 \<le> length es))"
  using assms
  by (cases rule: constructed.cases) (auto simp add: BooleanExpression_init_arity split: if_splits)

lemma count_list_keys:
  assumes "distinct (map fst items)"
  shows "count_list (map fst items) n = (if n \<in> fst ` set items then 1 else 0)"
  using assms by (induction items) auto

lemma names_completed:
  "map attr_name (completed items) =
     map fst items
     @ (if ''min'' \<in> fst ` set items then [] else [''min''])
     @ (if ''max'' \<in> fst ` set items then [] else [''max''])"
  by (simp add: completed_def attr_name_as_attribute cong: map_cong)

lemma count_list_append: "count_list (xs @ ys) n = count_list xs n + count_list ys n"
  by (induction xs) auto

section \<open>The decision table of ScenarioImageEntity\<close>

text \<open>
  C1. For a \<^verbatim>\<open>ScenarioImageEntity\<close> leaf whose stored attributes are the score threshold
  \<open>s\<close> and the bounds \<open>mn\<close> and \<open>mx\<close>, and a session with a perception snapshot, let
  \<open>c\<close> be the number of object-detection results whose entity equals the leaf's entity
  and whose score is at least \<open>s\<close>. Then \<^verbatim>\<open>evaluate\<close> returns \<^verbatim>\<open>False\<close> when \<open>c = 0\<close>
  and otherwise \<^verbatim>\<open>True\<close> exactly when \<open>mn = 0\<close> and \<open>mx = 0\<close>, or \<open>mn = 0\<close> and
  \<open>c \<le> mx\<close>, or \<open>mx = 0\<close> and \<open>mn \<le> c\<close>, or \<open>mn \<le> c \<le> mx\<close>. In particular, with
  \<open>mn = 2\<close> and \<open>mx = 5\<close> the counts 1, 3, 5, 6 give \<^verbatim>\<open>False\<close>, \<^verbatim>\<open>True\<close>, \<^verbatim>\<open>True\<close>,
  \<^verbatim>\<open>False\<close>, and with the defaults \<open>mn = 1\<close> and \<open>mx = 0\<close> the count 100 gives \<^verbatim>\<open>True\<close>.
\<close>

theorem ScenarioImageEntity_evaluate_decision_table:
  assumes "get_attribute_value (sie_attributes leaf) ''score'' = PyFloat s"
    and "get_attribute_value (sie_attributes leaf) ''min'' = PyInt mn"
    and "get_attribute_value (sie_attributes leaf) ''max'' = PyInt mx"
    and "session_image_prediction sess = Some prediction"
    and "c = qualifying_count (sie_image_entity leaf) s prediction"
  shows "ScenarioImageEntity_evaluate leaf sess =
           Inr (c \<noteq> 0 \<and> (mn = 0 \<and> mx = 0 \<or> mn = 0 \<and> c \<le> mx \<or> mx = 0 \<and> mn \<le> c
                          \<or> mn \<le> c \<and> c \<le> mx))
       \<and> (c = 0 \<longrightarrow> ScenarioImageEntity_evaluate leaf sess = Inr False)
       \<and> (mn = 2 \<and> mx = 5 \<longrightarrow>
            (c = 1 \<longrightarrow> ScenarioImageEntity_evaluate leaf sess = Inr False)
          \<and> (c = 3 \<longrightarrow> ScenarioImageEntity_evaluate leaf sess = Inr True)
          \<and> (c = 5 \<longrightarrow> ScenarioImageEntity_evaluate leaf sess = Inr True)
          \<and> (c = 6 \<longrightarrow> ScenarioImageEntity_evaluate leaf sess = Inr False))
       \<and> (mn = 1 \<and> mx = 0 \<and> c = 100 \<longrightarrow> ScenarioImageEntity_evaluate leaf sess = Inr True)"
proof -
  have table: "ScenarioImageEntity_evaluate leaf sess =
           Inr (c \<noteq> 0 \<and> (mn = 0 \<and> mx = 0 \<or> mn = 0 \<and> c \<le> mx \<or> mx = 0 \<and> mn \<le> c
                          \<or> mn \<le> c \<and> c \<le> mx))"
    using evaluate_by_table [OF assms(1-4)] by (simp add: assms(5) Let_def)
  show ?thesis
    unfolding table by simp
qed

theorem ScenarioImageEntity_evaluate_decision_table_witness:
  "ScenarioImageEntity_evaluate
     \<lparr>sie_name = ''some cats'',
       sie_image_entity = \<lparr>req_class = ImageEntity, req_name = ''cat'', req_attributes = []\<rparr>,
       sie_attributes = [\<lparr>attr_name = ''score'', attr_value = PyFloat (1 / 2)\<rparr>,
                         \<lparr>attr_name = ''min'', attr_value = PyInt 2\<rparr>,
                         \<lparr>attr_name = ''max'', attr_value = PyInt 5\<rparr>]\<rparr>
     \<lparr>session_image_prediction = Some
        \<lparr>image_object_predictions =
           [\<lparr>iop_image_entity = \<lparr>req_class = ImageEntity, req_name = ''cat'', req_attributes = []\<rparr>,
              iop_score = 9 / 10\<rparr>,
            \<lparr>iop_image_entity = \<lparr>req_class = ImageEntity, req_name = ''dog'', req_attributes = []\<rparr>,
              iop_score = 9 / 10\<rparr>,
            \<lparr>iop_image_entity = \<lparr>req_class = ImageEntity, req_name = ''cat'', req_attributes = []\<rparr>,
              iop_score = 1 / 2\<rparr>,
            \<lparr>iop_image_entity = \<lparr>req_class = ImageEntity, req_name = ''cat'', req_attributes = []\<rparr>,
              iop_score = 1 / 4\<rparr>,
            \<lparr>iop_image_entity = \<lparr>req_class = ImageEntity, req_name = ''cat'', req_attributes = []\<rparr>,
              iop_score = 3 / 4\<rparr>],
          image_property_predictions = []\<rparr>\<rparr>
   = Inr True"
proof -
  let ?cat = "\<lparr>req_class = ImageEntity, req_name = ''cat'', req_attributes = []\<rparr>"
  let ?dog = "\<lparr>req_class = ImageEntity, req_name = ''dog'', req_attributes = []\<rparr>"
  let ?leaf = "\<lparr>sie_name = ''some cats'', sie_image_entity = ?cat,
       sie_attributes = [\<lparr>attr_name = ''score'', attr_value = PyFloat (1 / 2)\<rparr>,
                         \<lparr>attr_name = ''min'', attr_value = PyInt 2\<rparr>,
                         \<lparr>attr_name = ''max'', attr_value = PyInt 5\<rparr>]\<rparr>"
  let ?prediction = "\<lparr>image_object_predictions =
           [\<lparr>iop_image_entity = ?cat, iop_score = 9 / 10\<rparr>,
            \<lparr>iop_image_entity = ?dog, iop_score = 9 / 10\<rparr>,
            \<lparr>iop_image_entity = ?cat, iop_score = 1 / 2\<rparr>,
            \<lparr>iop_image_entity = ?cat, iop_score = 1 / 4\<rparr>,
            \<lparr>iop_image_entity = ?cat, iop_score = 3 / 4\<rparr>],
          image_property_predictions = []\<rparr>"
  let ?sess = "\<lparr>session_image_prediction = Some ?prediction\<rparr>"
  have score: "get_attribute_value (sie_attributes ?leaf) ''score'' = PyFloat (1 / 2)"
    and lower: "get_attribute_value (sie_attributes ?leaf) ''min'' = PyInt 2"
    and upper: "get_attribute_value (sie_attributes ?leaf) ''max'' = PyInt 5"
    and snapshot: "session_image_prediction ?sess = Some ?prediction"
    by simp_all
  have count: "3 = qualifying_count (sie_image_entity ?leaf) (1 / 2) ?prediction"
    by (simp add: qualifying_count_def qualifies_def ImageRequirement_eq_def)
  from ScenarioImageEntity_evaluate_decision_table [OF score lower upper snapshot count]
  show ?thesis by simp
qed

text \<open>
  C2, as stated, speaks of a \<^verbatim>\<open>ScenarioImageEntity\<close> constructed with \<^verbatim>\<open>min=0\<close> and
  \<^verbatim>\<open>max=0\<close>. The constructor raises on these attributes: \<^verbatim>\<open>min < 1\<close> is rejected.
\<close>

theorem ScenarioImageEntity_min_0_max_0_counterexample:
  "ScenarioImageEntity_init ''presence''
     \<lparr>req_class = ImageEntity, req_name = ''cat'', req_attributes = []\<rparr>
     [(''score'', PyFloat (1 / 2)), (''min'', PyInt 0), (''max'', PyInt 0)] = Inl ValueError"
  by (simp add: ScenarioImageEntity_init_def ScenarioImageEntityAttribute_init_def
      ScenarioImageEntityAttribute_dictionary_def on_success_def py_lt_def)

text \<open>
  C2, amended. No constructor call whose \<^verbatim>\<open>min\<close> is 0 returns a leaf: it raises
  \<^verbatim>\<open>ValueError\<close>. The method \<^verbatim>\<open>evaluate\<close>, on a leaf whose stored attributes are
  \<^verbatim>\<open>min = 0\<close> and \<^verbatim>\<open>max = 0\<close>, on a session with a snapshot, returns \<^verbatim>\<open>True\<close> exactly
  when there is at least one qualifying detection: \<^verbatim>\<open>True\<close> with exactly 1, \<^verbatim>\<open>False\<close>
  with 0.
\<close>

theorem presence_only_unreachable:
  "(given_or items ''min'' (PyInt 1) = PyInt 0 \<longrightarrow>
      ScenarioImageEntity_init name ent items = Inl ValueError)
   \<and> (get_attribute_value (sie_attributes leaf) ''score'' = PyFloat s
      \<and> get_attribute_value (sie_attributes leaf) ''min'' = PyInt 0
      \<and> get_attribute_value (sie_attributes leaf) ''max'' = PyInt 0
      \<and> session_image_prediction sess = Some prediction \<longrightarrow>
        ScenarioImageEntity_evaluate leaf sess =
          Inr (qualifying_count (sie_image_entity leaf) s prediction \<noteq> 0)
      \<and> (qualifying_count (sie_image_entity leaf) s prediction = 1 \<longrightarrow>
           ScenarioImageEntity_evaluate leaf sess = Inr True)
      \<and> (qualifying_count (sie_image_entity leaf) s prediction = 0 \<longrightarrow>
           ScenarioImageEntity_evaluate leaf sess = Inr False))"
proof (intro conjI impI)
  assume "given_or items ''min'' (PyInt 1) = PyInt 0"
  then show "ScenarioImageEntity_init name ent items = Inl ValueError"
    by (rule ScenarioImageEntity_init_rejects_small_min) simp
next
  assume stored: "get_attribute_value (sie_attributes leaf) ''score'' = PyFloat s
      \<and> get_attribute_value (sie_attributes leaf) ''min'' = PyInt 0
      \<and> get_attribute_value (sie_attributes leaf) ''max'' = PyInt 0
      \<and> session_image_prediction sess = Some prediction"
  then have table: "ScenarioImageEntity_evaluate leaf sess =
          Inr (qualifying_count (sie_image_entity leaf) s prediction \<noteq> 0)"
    using evaluate_by_table [of leaf s 0 0 sess prediction] by (simp add: Let_def)
  show "ScenarioImageEntity_evaluate leaf sess =
          Inr (qualifying_count (sie_image_entity leaf) s prediction \<noteq> 0)"
    by (rule table)
  show "ScenarioImageEntity_evaluate leaf sess = Inr True"
    if "qualifying_count (sie_image_entity leaf) s prediction = 1"
    using that by (simp add: table)
  show "ScenarioImageEntity_evaluate leaf sess = Inr False"
    if "qualifying_count (sie_image_entity leaf) s prediction = 0"
    using that by (simp add: table)
qed

theorem presence_only_unreachable_witness:
  "ScenarioImageEntity_init ''presence''
     \<lparr>req_class = ImageEntity, req_name = ''dog'', req_attributes = []\<rparr>
     [(''score'', PyFloat (1 / 4)), (''min'', PyInt 0), (''max'', PyInt 0)] = Inl ValueError
   \<and> ScenarioImageEntity_evaluate
     \<lparr>sie_name = ''presence'',
       sie_image_entity = \<lparr>req_class = ImageEntity, req_name = ''dog'', req_attributes = []\<rparr>,
       sie_attributes = [\<lparr>attr_name = ''score'', attr_value = PyFloat (1 / 4)\<rparr>,
                         \<lparr>attr_name = ''min'', attr_value = PyInt 0\<rparr>,
                         \<lparr>attr_name = ''max'', attr_value = PyInt 0\<rparr>]\<rparr>
     \<lparr>session_image_prediction = Some
        \<lparr>image_object_predictions =
           [\<lparr>iop_image_entity = \<lparr>req_class = ImageEntity, req_name = ''dog'', req_attributes = []\<rparr>,
              iop_score = 1 / 2\<rparr>],
          image_property_predictions = []\<rparr>\<rparr>
   = Inr True"
proof -
  let ?dog = "\<lparr>req_class = ImageEntity, req_name = ''dog'', req_attributes = []\<rparr>"
  let ?items = "[(''score'', PyFloat (1 / 4)), (''min'', PyInt 0), (''max'', PyInt 0)]"
  let ?leaf = "\<lparr>sie_name = ''presence'', sie_image_entity = ?dog,
       sie_attributes = [\<lparr>attr_name = ''score'', attr_value = PyFloat (1 / 4)\<rparr>,
                         \<lparr>attr_name = ''min'', attr_value = PyInt 0\<rparr>,
                         \<lparr>attr_name = ''max'', attr_value = PyInt 0\<rparr>]\<rparr>"
  let ?prediction = "\<lparr>image_object_predictions = [\<lparr>iop_image_entity = ?dog, iop_score = 1 / 2\<rparr>],
          image_property_predictions = []\<rparr>"
  let ?sess = "\<lparr>session_image_prediction = Some ?prediction\<rparr>"
  have given: "given_or ?items ''min'' (PyInt 1) = PyInt 0"
    by (simp add: given_or_def)
  have stored: "get_attribute_value (sie_attributes ?leaf) ''score'' = PyFloat (1 / 4)
      \<and> get_attribute_value (sie_attributes ?leaf) ''min'' = PyInt 0
      \<and> get_attribute_value (sie_attributes ?leaf) ''max'' = PyInt 0
      \<and> session_image_prediction ?sess = Some ?prediction"
    by simp
  have count: "qualifying_count (sie_image_entity ?leaf) (1 / 4) ?prediction = 1"
    by (simp add: qualifying_count_def qualifies_def ImageRequirement_eq_def)
  from presence_only_unreachable [of ?items "''presence''" ?dog ?leaf "1 / 4" ?sess ?prediction]
    given stored count
  show ?thesis by simp
qed

section \<open>ScenarioImageProperty\<close>

text \<open>
  C6. For a \<^verbatim>\<open>ScenarioImageProperty\<close> leaf whose stored score threshold is \<open>t\<close> (any
  threshold, in particular the double that the literal \<^verbatim>\<open>0.7\<close> denotes,
  3152519739159347 / 2^52), \<^verbatim>\<open>evaluate\<close> returns \<^verbatim>\<open>False\<close> when the session has no
  perception snapshot, and otherwise \<^verbatim>\<open>True\<close> exactly when some property-detection
  result of the snapshot has the leaf's property and a score of at least \<open>t\<close>.
\<close>

theorem ScenarioImageProperty_evaluate_existence:
  assumes "get_attribute_value (sip_attributes leaf) ''score'' = PyFloat t"
  shows "ScenarioImageProperty_evaluate leaf sess =
           Inr (case session_image_prediction sess of
                  None \<Rightarrow> False
                | Some prediction \<Rightarrow>
                    \<exists>p \<in> set (image_property_predictions prediction).
                      ImageRequirement_eq (ipp_image_property p)
                        (Requirement (sip_image_property leaf))
                      \<and> t \<le> ipp_score p)"
  using assms
  by (simp add: ScenarioImageProperty_evaluate_def any_with_float_score split: option.splits)

theorem ScenarioImageProperty_evaluate_existence_witness:
  "ScenarioImageProperty_evaluate
     \<lparr>sip_name = ''dark'',
       sip_image_property = \<lparr>req_class = ImageProperty, req_name = ''dark'', req_attributes = []\<rparr>,
       sip_attributes =
         [\<lparr>attr_name = ''score'',
            attr_value = PyFloat (3152519739159347 / 4503599627370496)\<rparr>]\<rparr>
     \<lparr>session_image_prediction = Some
        \<lparr>image_object_predictions = [],
          image_property_predictions =
           [\<lparr>ipp_image_property =
                \<lparr>req_class = ImageProperty, req_name = ''crowded'', req_attributes = []\<rparr>,
              ipp_score = 9 / 10\<rparr>,
            \<lparr>ipp_image_property =
                \<lparr>req_class = ImageProperty, req_name = ''dark'', req_attributes = []\<rparr>,
              ipp_score = 1 / 2\<rparr>,
            \<lparr>ipp_image_property =
                \<lparr>req_class = ImageProperty, req_name = ''dark'', req_attributes = []\<rparr>,
              ipp_score = 3 / 4\<rparr>]\<rparr>\<rparr>
   = Inr True"
proof -
  let ?leaf = "\<lparr>sip_name = ''dark'',
       sip_image_property = \<lparr>req_class = ImageProperty, req_name = ''dark'', req_attributes = []\<rparr>,
       sip_attributes =
         [\<lparr>attr_name = ''score'',
            attr_value = PyFloat (3152519739159347 / 4503599627370496)\<rparr>]\<rparr>"
  have score: "get_attribute_value (sip_attributes ?leaf) ''score''
                 = PyFloat (3152519739159347 / 4503599627370496)"
    by simp
  show ?thesis
    unfolding ScenarioImageProperty_evaluate_existence [OF score]
    by (simp add: ImageRequirement_eq_def)
qed

section \<open>Evaluation of boolean expressions\<close>

text \<open>
  C7. For every \<^verbatim>\<open>BooleanExpression\<close> that the constructors produce and every session:
  an \<^verbatim>\<open>AND\<close> node evaluates to \<^verbatim>\<open>True\<close> exactly when every child evaluates to
  \<^verbatim>\<open>True\<close>, an \<^verbatim>\<open>OR\<close> node exactly when at least one child does, and a \<^verbatim>\<open>NOT\<close> node
  has a single child and evaluates to the negation of the boolean that child evaluates
  to. In each case the node returns a boolean (no exception).
\<close>

theorem BooleanExpression_evaluate_connectives:
  assumes "constructed (BooleanExpression operator es)"
  shows "(operator = AND \<longrightarrow>
            evaluate (BooleanExpression operator es) sess =
              Inr (\<forall>c \<in> set es. evaluate c sess = Inr True))
       \<and> (operator = OR \<longrightarrow>
            evaluate (BooleanExpression operator es) sess =
              Inr (\<exists>c \<in> set es. evaluate c sess = Inr True))
       \<and> (operator = NOT \<longrightarrow>
            (\<exists>c b. es = [c] \<and> evaluate c sess = Inr b
                 \<and> evaluate (BooleanExpression operator es) sess = Inr (\<not> b)))"
proof -
  from constructed_composite [OF assms]
  have children: "\<forall>c \<in> set es. constructed c"
    and arity: "(operator = NOT \<and> length es = 1) \<or> (operator \<noteq> NOT \<and> 2 \<le> length es)"
    by blast+
  from children have returns: "\<forall>c \<in> set es. \<exists>b. evaluate c sess = Inr b"
    by (blast intro: constructed_returns)
  note each = evaluate_each_returns [OF returns]
  have conj: "evaluate (BooleanExpression AND es) sess =
                Inr (\<forall>c \<in> set es. evaluate c sess = Inr True)"
    by (simp add: each list_all_iff)
  have disj: "evaluate (BooleanExpression OR es) sess =
                Inr (\<exists>c \<in> set es. evaluate c sess = Inr True)"
    by (simp add: each list_ex_iff)
  have neg: "\<exists>c b. es = [c] \<and> evaluate c sess = Inr b
                 \<and> evaluate (BooleanExpression NOT es) sess = Inr (\<not> b)"
    if "operator = NOT"
  proof -
    from that arity obtain c where es: "es = [c]"
      by (cases es) auto
    with returns obtain b where "evaluate c sess = Inr b" by auto
    with es show ?thesis by simp
  qed
  from conj disj neg show ?thesis by blast
qed

theorem BooleanExpression_evaluate_connectives_witness:
  "evaluate
     (BooleanExpression AND
        [ScenarioImageEntity
           \<lparr>sie_name = ''cats'',
             sie_image_entity = \<lparr>req_class = ImageEntity, req_name = ''cat'', req_attributes = []\<rparr>,
             sie_attributes = [\<lparr>attr_name = ''score'', attr_value = PyFloat (1 / 2)\<rparr>,
                               \<lparr>attr_name = ''min'', attr_value = PyInt 1\<rparr>,
                               \<lparr>attr_name = ''max'', attr_value = PyInt 0\<rparr>]\<rparr>,
         BooleanExpression NOT
           [ScenarioImageProperty
              \<lparr>sip_name = ''dark'',
                sip_image_property =
                  \<lparr>req_class = ImageProperty, req_name = ''dark'', req_attributes = []\<rparr>,
                sip_attributes = [\<lparr>attr_name = ''score'', attr_value = PyFloat (3 / 4)\<rparr>]\<rparr>]])
     \<lparr>session_image_prediction = Some
        \<lparr>image_object_predictions =
           [\<lparr>iop_image_entity = \<lparr>req_class = ImageEntity, req_name = ''cat'', req_attributes = []\<rparr>,
              iop_score = 9 / 10\<rparr>],
          image_property_predictions =
           [\<lparr>ipp_image_property =
                \<lparr>req_class = ImageProperty, req_name = ''dark'', req_attributes = []\<rparr>,
              ipp_score = 1 / 4\<rparr>]\<rparr>\<rparr>
   = Inr True"
proof -
  let ?cat = "\<lparr>req_class = ImageEntity, req_name = ''cat'', req_attributes = []\<rparr>"
  let ?dark = "\<lparr>req_class = ImageProperty, req_name = ''dark'', req_attributes = []\<rparr>"
  let ?cats = "\<lparr>sie_name = ''cats'', sie_image_entity = ?cat,
             sie_attributes = [\<lparr>attr_name = ''score'', attr_value = PyFloat (1 / 2)\<rparr>,
                               \<lparr>attr_name = ''min'', attr_value = PyInt 1\<rparr>,
                               \<lparr>attr_name = ''max'', attr_value = PyInt 0\<rparr>]\<rparr>"
  let ?is_dark = "\<lparr>sip_name = ''dark'', sip_image_property = ?dark,
                sip_attributes = [\<lparr>attr_name = ''score'', attr_value = PyFloat (3 / 4)\<rparr>]\<rparr>"
  let ?sess = "\<lparr>session_image_prediction = Some
        \<lparr>image_object_predictions = [\<lparr>iop_image_entity = ?cat, iop_score = 9 / 10\<rparr>],
          image_property_predictions = [\<lparr>ipp_image_property = ?dark, ipp_score = 1 / 4\<rparr>]\<rparr>\<rparr>"
  have "ScenarioImageEntity_init ''cats'' ?cat [(''score'', PyFloat (1 / 2))] = Inr ?cats"
    by (simp add: ScenarioImageEntity_init_def ScenarioImageEntityAttribute_init_def
        ScenarioImageEntityAttribute_dictionary_def on_success_def and_then_def
        py_lt_def py_gt_def py_eq_def)
  then have cats: "constructed (ScenarioImageEntity ?cats)"
    by (rule constructed.entity_leaf)
  have "ScenarioImageProperty_init ''dark'' ?dark [(''score'', PyFloat (3 / 4))] = Inr ?is_dark"
    by (simp add: ScenarioImageProperty_init_def ScenarioImagePropertyAttribute_init_def
        ScenarioImagePropertyAttribute_dictionary_def on_success_def)
  then have is_dark: "constructed (ScenarioImageProperty ?is_dark)"
    by (rule constructed.property_leaf)
  have not_dark: "constructed (BooleanExpression NOT [ScenarioImageProperty ?is_dark])"
    by (rule constructed.composite [where es = "[ScenarioImageProperty ?is_dark]" and operator = NOT])
      (simp_all add: is_dark BooleanExpression_init_def)
  have both: "constructed (BooleanExpression AND
        [ScenarioImageEntity ?cats, BooleanExpression NOT [ScenarioImageProperty ?is_dark]])"
    by (rule constructed.composite
          [where es = "[ScenarioImageEntity ?cats,
                        BooleanExpression NOT [ScenarioImageProperty ?is_dark]]"
             and operator = AND])
      (simp_all add: cats not_dark BooleanExpression_init_def)
  have leaf1: "evaluate (ScenarioImageEntity ?cats) ?sess = Inr True"
    by (simp add: ScenarioImageEntity_evaluate_def on_success_def and_then_def
        py_ge_def py_le_def py_eq_def ImageRequirement_eq_def)
  have leaf2: "evaluate (ScenarioImageProperty ?is_dark) ?sess = Inr False"
    by (simp add: ScenarioImageProperty_evaluate_def on_success_def and_then_def
        py_ge_def py_le_def ImageRequirement_eq_def)
  from BooleanExpression_evaluate_connectives [OF not_dark, of ?sess] leaf2
  have "evaluate (BooleanExpression NOT [ScenarioImageProperty ?is_dark]) ?sess = Inr True"
    by simp
  with BooleanExpression_evaluate_connectives [OF both, of ?sess] leaf1
  show ?thesis by simp
qed

section \<open>The invariant established by the ScenarioImageEntity constructor\<close>

text \<open>
  C9. Whenever the constructor of \<^verbatim>\<open>ScenarioImageEntity\<close> returns a leaf (the
  \<^verbatim>\<open>attributes\<close> argument being a dict, so its keys are distinct), the stored values are
  a float score and integer bounds with \<open>min \<ge> 1\<close> and \<open>max = 0\<close> or \<open>min \<le> max\<close>; each
  of the names \<^verbatim>\<open>score\<close>, \<^verbatim>\<open>min\<close>, \<^verbatim>\<open>max\<close> occurs exactly once among the attributes;
  the guard \<^verbatim>\<open>_min == 0\<close> of the first two branches of \<^verbatim>\<open>evaluate\<close> is false; and on
  every session with a snapshot, with \<open>c\<close> the number of qualifying detections,
  \<^verbatim>\<open>evaluate\<close> returns \<open>c > 0\<close> and (if \<open>max = 0\<close> then \<open>c \<ge> min\<close> else
  \<open>min \<le> c \<le> max\<close>).
\<close>

theorem ScenarioImageEntity_constructor_invariant:
  assumes "ScenarioImageEntity_init name ent items = Inr leaf"
    and "distinct (map fst items)"
  shows "\<exists>s mn mx.
           get_attribute_value (sie_attributes leaf) ''score'' = PyFloat s
         \<and> get_attribute_value (sie_attributes leaf) ''min'' = PyInt mn
         \<and> get_attribute_value (sie_attributes leaf) ''max'' = PyInt mx
         \<and> 1 \<le> mn \<and> (mx = 0 \<or> mn \<le> mx)
         \<and> count_list (map attr_name (sie_attributes leaf)) ''score'' = 1
         \<and> count_list (map attr_name (sie_attributes leaf)) ''min'' = 1
         \<and> count_list (map attr_name (sie_attributes leaf)) ''max'' = 1
         \<and> \<not> py_eq (get_attribute_value (sie_attributes leaf) ''min'') (PyInt 0)
         \<and> (\<forall>sess prediction c.
               session_image_prediction sess = Some prediction
               \<and> c = qualifying_count (sie_image_entity leaf) s prediction \<longrightarrow>
               ScenarioImageEntity_evaluate leaf sess =
                 Inr (0 < c \<and> (if mx = 0 then mn \<le> c else mn \<le> c \<and> c \<le> mx)))"
proof -
  from ScenarioImageEntity_init_Inr [OF assms(1)] obtain s mn mx where
    given: "given_or items ''score'' PyNone = PyFloat s"
      "given_or items ''min'' (PyInt 1) = PyInt mn"
      "given_or items ''max'' (PyInt 0) = PyInt mx"
    and range: "1 \<le> mn" "mx = 0 \<or> mn \<le> mx"
    and score_given: "''score'' \<in> fst ` set items"
    and leaf: "leaf = \<lparr>sie_name = name, sie_image_entity = ent, sie_attributes = completed items\<rparr>"
    by blast
  have stored: "get_attribute_value (sie_attributes leaf) ''score'' = PyFloat s"
    "get_attribute_value (sie_attributes leaf) ''min'' = PyInt mn"
    "get_attribute_value (sie_attributes leaf) ''max'' = PyInt mx"
    by (simp_all add: leaf get_completed given)
  have once: "count_list (map attr_name (sie_attributes leaf)) ''score'' = 1"
    "count_list (map attr_name (sie_attributes leaf)) ''min'' = 1"
    "count_list (map attr_name (sie_attributes leaf)) ''max'' = 1"
    using score_given
    by (simp_all add: leaf names_completed count_list_append count_list_keys [OF assms(2)])
  have unreachable: "\<not> py_eq (get_attribute_value (sie_attributes leaf) ''min'') (PyInt 0)"
    using range(1) by (simp add: stored py_int_compare)
  have table: "ScenarioImageEntity_evaluate leaf sess =
                 Inr (0 < c \<and> (if mx = 0 then mn \<le> c else mn \<le> c \<and> c \<le> mx))"
    if "session_image_prediction sess = Some prediction"
      and c: "c = qualifying_count (sie_image_entity leaf) s prediction"
    for sess prediction c
  proof -
    have "0 \<le> c" by (simp add: c qualifying_count_def)
    with range evaluate_by_table [OF stored that(1)] show ?thesis
      by (auto simp add: Let_def c [symmetric])
  qed
  from stored range once unreachable table show ?thesis by blast
qed

theorem ScenarioImageEntity_constructor_invariant_witness:
  "ScenarioImageEntity_init ''a few dogs''
     \<lparr>req_class = ImageEntity, req_name = ''dog'', req_attributes = []\<rparr>
     [(''max'', PyInt 4), (''score'', PyFloat (3 / 5))]
   = Inr \<lparr>sie_name = ''a few dogs'',
          sie_image_entity = \<lparr>req_class = ImageEntity, req_name = ''dog'', req_attributes = []\<rparr>,
          sie_attributes = [\<lparr>attr_name = ''max'', attr_value = PyInt 4\<rparr>,
                            \<lparr>attr_name = ''score'', attr_value = PyFloat (3 / 5)\<rparr>,
                            \<lparr>attr_name = ''min'', attr_value = PyInt 1\<rparr>]\<rparr>
   \<and> distinct (map fst [(''max'', PyInt 4), (''score'', PyFloat (3 / 5))])
   \<and> ScenarioImageEntity_evaluate
         \<lparr>sie_name = ''a few dogs'',
           sie_image_entity = \<lparr>req_class = ImageEntity, req_name = ''dog'', req_attributes = []\<rparr>,
           sie_attributes = [\<lparr>attr_name = ''max'', attr_value = PyInt 4\<rparr>,
                             \<lparr>attr_name = ''score'', attr_value = PyFloat (3 / 5)\<rparr>,
                             \<lparr>attr_name = ''min'', attr_value = PyInt 1\<rparr>]\<rparr>
         \<lparr>session_image_prediction = Some
            \<lparr>image_object_predictions =
               [\<lparr>iop_image_entity =
                    \<lparr>req_class = ImageEntity, req_name = ''dog'', req_attributes = []\<rparr>,
                  iop_score = 7 / 10\<rparr>,
                \<lparr>iop_image_entity =
                    \<lparr>req_class = ImageEntity, req_name = ''dog'', req_attributes = []\<rparr>,
                  iop_score = 4 / 5\<rparr>],
              image_property_predictions = []\<rparr>\<rparr>
       = Inr True"
proof -
  let ?dog = "\<lparr>req_class = ImageEntity, req_name = ''dog'', req_attributes = []\<rparr>"
  let ?items = "[(''max'', PyInt 4), (''score'', PyFloat (3 / 5))]"
  let ?leaf = "\<lparr>sie_name = ''a few dogs'', sie_image_entity = ?dog,
          sie_attributes = [\<lparr>attr_name = ''max'', attr_value = PyInt 4\<rparr>,
                            \<lparr>attr_name = ''score'', attr_value = PyFloat (3 / 5)\<rparr>,
                            \<lparr>attr_name = ''min'', attr_value = PyInt 1\<rparr>]\<rparr>"
  let ?prediction = "\<lparr>image_object_predictions =
               [\<lparr>iop_image_entity = ?dog, iop_score = 7 / 10\<rparr>,
                \<lparr>iop_image_entity = ?dog, iop_score = 4 / 5\<rparr>],
              image_property_predictions = []\<rparr>"
  let ?sess = "\<lparr>session_image_prediction = Some ?prediction\<rparr>"
  have built: "ScenarioImageEntity_init ''a few dogs'' ?dog ?items = Inr ?leaf"
    by (simp add: ScenarioImageEntity_init_def ScenarioImageEntityAttribute_init_def
        ScenarioImageEntityAttribute_dictionary_def on_success_def and_then_def
        py_lt_def py_gt_def py_eq_def)
  have keys: "distinct (map fst ?items)"
    by simp
  from ScenarioImageEntity_constructor_invariant [OF built keys] obtain s mn mx where
    stored: "get_attribute_value (sie_attributes ?leaf) ''score'' = PyFloat s"
      "get_attribute_value (sie_attributes ?leaf) ''min'' = PyInt mn"
      "get_attribute_value (sie_attributes ?leaf) ''max'' = PyInt mx"
    and table: "\<forall>sess prediction c.
               session_image_prediction sess = Some prediction
               \<and> c = qualifying_count (sie_image_entity ?leaf) s prediction \<longrightarrow>
               ScenarioImageEntity_evaluate ?leaf sess =
                 Inr (0 < c \<and> (if mx = 0 then mn \<le> c else mn \<le> c \<and> c \<le> mx))"
    by blast
  from stored have concrete: "s = 3 / 5" "mn = 1" "mx = 4"
    by simp_all
  have count: "qualifying_count ?dog (3 / 5) ?prediction = 2"
    by (simp add: qualifying_count_def qualifies_def ImageRequirement_eq_def)
  from table have "ScenarioImageEntity_evaluate ?leaf ?sess =
      Inr (0 < qualifying_count ?dog (3 / 5) ?prediction
           \<and> 1 \<le> qualifying_count ?dog (3 / 5) ?prediction
           \<and> qualifying_count ?dog (3 / 5) ?prediction \<le> 4)"
    unfolding concrete by simp
  then have "ScenarioImageEntity_evaluate ?leaf ?sess = Inr True"
    unfolding count by simp
  with built keys show ?thesis by blast
qed

section \<open>Validation happens in the constructors\<close>

text \<open>
  C3. Every validation failure is raised by a constructor, and evaluation raises none.
  \<^verbatim>\<open>BooleanExpression\<close> with \<^verbatim>\<open>AND\<close> or \<^verbatim>\<open>OR\<close> and fewer than 2 children, or with
  \<^verbatim>\<open>NOT\<close> and a number of children other than 1, raises. A scenario leaf (of either
  kind) raises when some attribute name is not a key of its dictionary, when some
  attribute value has a type other than the declared one, and when \<^verbatim>\<open>score\<close> is not
  given. \<^verbatim>\<open>ScenarioImageEntity\<close> raises when \<^verbatim>\<open>min\<close> (given, or the default 1) is below
  1, and when \<^verbatim>\<open>min\<close> exceeds \<^verbatim>\<open>max\<close> (given, or the default 0) while \<^verbatim>\<open>max\<close> is not 0.
  Every expression that the constructors produce evaluates to a boolean on every session.
\<close>

theorem validation_fails_at_construction:
  "(operator \<in> {AND, OR} \<and> length es < 2 \<longrightarrow>
      BooleanExpression_init operator es = Inl ValueError)
   \<and> (length es \<noteq> 1 \<longrightarrow> BooleanExpression_init NOT es = Inl ValueError)
   \<and> ((n, v) \<in> set items \<and> map_of ScenarioImageEntityAttribute_dictionary n = None \<longrightarrow>
        ScenarioImageEntity_init name ent items = Inl ValueError)
   \<and> ((n, v) \<in> set items \<and> map_of ScenarioImagePropertyAttribute_dictionary n = None \<longrightarrow>
        ScenarioImageProperty_init name ent items = Inl ValueError)
   \<and> ((n, v) \<in> set items \<and> map_of ScenarioImageEntityAttribute_dictionary n = Some t
        \<and> py_type v \<noteq> t \<longrightarrow>
        ScenarioImageEntity_init name ent items = Inl ValueError)
   \<and> ((n, v) \<in> set items \<and> map_of ScenarioImagePropertyAttribute_dictionary n = Some t
        \<and> py_type v \<noteq> t \<longrightarrow>
        ScenarioImageProperty_init name ent items = Inl ValueError)
   \<and> (''score'' \<notin> fst ` set items \<longrightarrow>
        ScenarioImageEntity_init name ent items = Inl ValueError
        \<and> ScenarioImageProperty_init name ent items = Inl ValueError)
   \<and> (given_or items ''min'' (PyInt 1) = PyInt mn \<and> mn < 1 \<longrightarrow>
        ScenarioImageEntity_init name ent items = Inl ValueError)
   \<and> (given_or items ''min'' (PyInt 1) = PyInt mn \<and> given_or items ''max'' (PyInt 0) = PyInt mx
        \<and> mx < mn \<and> mx \<noteq> 0 \<longrightarrow>
        ScenarioImageEntity_init name ent items = Inl ValueError)
   \<and> (constructed e \<longrightarrow> (\<exists>b. evaluate e sess = Inr b))"
proof (intro conjI impI)
  assume "operator \<in> {AND, OR} \<and> length es < 2"
  then show "BooleanExpression_init operator es = Inl ValueError"
    by (auto simp add: BooleanExpression_init_arity)
next
  assume "length es \<noteq> 1"
  then show "BooleanExpression_init NOT es = Inl ValueError"
    by (simp add: BooleanExpression_init_arity)
next
  assume "(n, v) \<in> set items \<and> map_of ScenarioImageEntityAttribute_dictionary n = None"
  then show "ScenarioImageEntity_init name ent items = Inl ValueError"
    by (blast intro: ScenarioImageEntity_init_rejects_item dest: unknown_name_not_conforms)
next
  assume "(n, v) \<in> set items \<and> map_of ScenarioImagePropertyAttribute_dictionary n = None"
  then show "ScenarioImageProperty_init name ent items = Inl ValueError"
    by (blast intro: ScenarioImageProperty_init_rejects_item dest: unknown_name_not_conforms)
next
  assume "(n, v) \<in> set items \<and> map_of ScenarioImageEntityAttribute_dictionary n = Some t
        \<and> py_type v \<noteq> t"
  then have "(n, v) \<in> set items" "\<not> conforms ScenarioImageEntityAttribute_dictionary (n, v)"
    by (auto dest: wrong_type_not_conforms)
  then show "ScenarioImageEntity_init name ent items = Inl ValueError"
    by (rule ScenarioImageEntity_init_rejects_item)
next
  assume "(n, v) \<in> set items \<and> map_of ScenarioImagePropertyAttribute_dictionary n = Some t
        \<and> py_type v \<noteq> t"
  then have "(n, v) \<in> set items" "\<not> conforms ScenarioImagePropertyAttribute_dictionary (n, v)"
    by (auto dest: wrong_type_not_conforms)
  then show "ScenarioImageProperty_init name ent items = Inl ValueError"
    by (rule ScenarioImageProperty_init_rejects_item)
next
  assume "''score'' \<notin> fst ` set items"
  then show "ScenarioImageEntity_init name ent items = Inl ValueError"
    by (rule init_rejects_missing_score)
next
  assume "''score'' \<notin> fst ` set items"
  then show "ScenarioImageProperty_init name ent items = Inl ValueError"
    by (rule init_rejects_missing_score)
next
  assume "given_or items ''min'' (PyInt 1) = PyInt mn \<and> mn < 1"
  then show "ScenarioImageEntity_init name ent items = Inl ValueError"
    by (blast intro: ScenarioImageEntity_init_rejects_small_min)
next
  assume "given_or items ''min'' (PyInt 1) = PyInt mn \<and> given_or items ''max'' (PyInt 0) = PyInt mx
        \<and> mx < mn \<and> mx \<noteq> 0"
  then show "ScenarioImageEntity_init name ent items = Inl ValueError"
    by (blast intro: ScenarioImageEntity_init_rejects_bad_range)
next
  assume "constructed e"
  then show "\<exists>b. evaluate e sess = Inr b"
    by (rule constructed_returns)
qed

theorem validation_fails_at_construction_witness:
  "BooleanExpression_init OR [] = Inl ValueError
   \<and> BooleanExpression_init NOT [] = Inl ValueError
   \<and> ScenarioImageEntity_init ''birds''
        \<lparr>req_class = ImageEntity, req_name = ''bird'', req_attributes = []\<rparr>
        [(''score'', PyFloat (1 / 2)), (''min'', PyInt 5), (''max'', PyInt 3)] = Inl ValueError
   \<and> ScenarioImageProperty_init ''birds''
        \<lparr>req_class = ImageEntity, req_name = ''bird'', req_attributes = []\<rparr>
        [(''score'', PyFloat (1 / 2)), (''min'', PyInt 5), (''max'', PyInt 3)] = Inl ValueError
   \<and> ScenarioImageEntity_init ''birds''
        \<lparr>req_class = ImageEntity, req_name = ''bird'', req_attributes = []\<rparr>
        [(''threshold'', PyFloat (1 / 2))] = Inl ValueError
   \<and> ScenarioImageProperty_init ''birds''
        \<lparr>req_class = ImageEntity, req_name = ''bird'', req_attributes = []\<rparr>
        [(''threshold'', PyFloat (1 / 2))] = Inl ValueError
   \<and> ScenarioImageEntity_init ''birds''
        \<lparr>req_class = ImageEntity, req_name = ''bird'', req_attributes = []\<rparr>
        [(''score'', PyInt 1), (''min'', PyInt 0)] = Inl ValueError
   \<and> ScenarioImageProperty_init ''birds''
        \<lparr>req_class = ImageEntity, req_name = ''bird'', req_attributes = []\<rparr>
        [(''score'', PyInt 1), (''min'', PyInt 0)] = Inl ValueError
   \<and> ScenarioImageEntity_init ''birds''
        \<lparr>req_class = ImageEntity, req_name = ''bird'', req_attributes = []\<rparr>
        [(''min'', PyInt 0), (''score'', PyFloat (1 / 2))] = Inl ValueError
   \<and> (\<exists>b. evaluate
          (ScenarioImageProperty
             \<lparr>sip_name = ''blurry'',
               sip_image_property =
                 \<lparr>req_class = ImageProperty, req_name = ''blurry'', req_attributes = []\<rparr>,
               sip_attributes = [\<lparr>attr_name = ''score'', attr_value = PyFloat (1 / 2)\<rparr>]\<rparr>)
          \<lparr>session_image_prediction = Some
             \<lparr>image_object_predictions = [], image_property_predictions = []\<rparr>\<rparr> = Inr b)"
proof -
  let ?bird = "\<lparr>req_class = ImageEntity, req_name = ''bird'', req_attributes = []\<rparr>"
  let ?blurry = "\<lparr>req_class = ImageProperty, req_name = ''blurry'', req_attributes = []\<rparr>"
  let ?A = "[(''score'', PyFloat (1 / 2)), (''min'', PyInt 5), (''max'', PyInt 3)]"
  let ?B = "[(''threshold'', PyFloat (1 / 2))]"
  let ?C = "[(''score'', PyInt 1), (''min'', PyInt 0)]"
  let ?D = "[(''min'', PyInt 0), (''score'', PyFloat (1 / 2))]"
  let ?leaf = "\<lparr>sip_name = ''blurry'', sip_image_property = ?blurry,
               sip_attributes = [\<lparr>attr_name = ''score'', attr_value = PyFloat (1 / 2)\<rparr>]\<rparr>"
  let ?sess = "\<lparr>session_image_prediction = Some
             \<lparr>image_object_predictions = [], image_property_predictions = []\<rparr>\<rparr>"
  have arity: "OR \<in> {AND, OR} \<and> length ([] :: expression list) < 2"
    "length ([] :: expression list) \<noteq> 1"
    by simp_all
  have range: "given_or ?A ''min'' (PyInt 1) = PyInt 5
        \<and> given_or ?A ''max'' (PyInt 0) = PyInt 3 \<and> (3 :: int) < 5 \<and> (3 :: int) \<noteq> 0"
    by (simp add: given_or_def)
  have unknown_min: "(''min'', PyInt 5) \<in> set ?A
        \<and> map_of ScenarioImagePropertyAttribute_dictionary ''min'' = None"
    by (simp add: ScenarioImagePropertyAttribute_dictionary_def)
  have unknown: "(''threshold'', PyFloat (1 / 2)) \<in> set ?B
        \<and> map_of ScenarioImageEntityAttribute_dictionary ''threshold'' = None"
    "(''threshold'', PyFloat (1 / 2)) \<in> set ?B
        \<and> map_of ScenarioImagePropertyAttribute_dictionary ''threshold'' = None"
    "''score'' \<notin> fst ` set ?B"
    by (simp_all add: ScenarioImageEntityAttribute_dictionary_def
        ScenarioImagePropertyAttribute_dictionary_def)
  have mismatch: "(''score'', PyInt 1) \<in> set ?C
        \<and> map_of ScenarioImageEntityAttribute_dictionary ''score'' = Some float_t
        \<and> py_type (PyInt 1) \<noteq> float_t"
    "(''score'', PyInt 1) \<in> set ?C
        \<and> map_of ScenarioImagePropertyAttribute_dictionary ''score'' = Some float_t
        \<and> py_type (PyInt 1) \<noteq> float_t"
    by (simp_all add: ScenarioImageEntityAttribute_dictionary_def
        ScenarioImagePropertyAttribute_dictionary_def)
  have small: "given_or ?D ''min'' (PyInt 1) = PyInt 0 \<and> (0 :: int) < 1"
    by (simp add: given_or_def)
  have "ScenarioImageProperty_init ''blurry'' ?blurry [(''score'', PyFloat (1 / 2))] = Inr ?leaf"
    by (simp add: ScenarioImageProperty_init_def ScenarioImagePropertyAttribute_init_def
        ScenarioImagePropertyAttribute_dictionary_def on_success_def)
  then have built: "constructed (ScenarioImageProperty ?leaf)"
    by (rule constructed.property_leaf)
  note instance_A = validation_fails_at_construction
         [of OR "[]" "''min''" "PyInt 5" ?A "''birds''" ?bird int_t 5 3]
  note instance_B = validation_fails_at_construction
         [of OR "[]" "''threshold''" "PyFloat (1 / 2)" ?B "''birds''" ?bird int_t 1 0]
  note instance_C = validation_fails_at_construction
         [of OR "[]" "''score''" "PyInt 1" ?C "''birds''" ?bird float_t 0 0]
  note instance_D = validation_fails_at_construction
         [of OR "[]" "''score''" "PyInt 1" ?D "''birds''" ?bird float_t 0 0
             "ScenarioImageProperty ?leaf" ?sess]
  from instance_A arity range unknown_min
  have A: "BooleanExpression_init OR [] = Inl ValueError"
    "BooleanExpression_init NOT [] = Inl ValueError"
    "ScenarioImageEntity_init ''birds'' ?bird ?A = Inl ValueError"
    "ScenarioImageProperty_init ''birds'' ?bird ?A = Inl ValueError"
    by blast+
  from instance_B unknown
  have B: "ScenarioImageEntity_init ''birds'' ?bird ?B = Inl ValueError"
    "ScenarioImageProperty_init ''birds'' ?bird ?B = Inl ValueError"
    by blast+
  from instance_C mismatch
  have C: "ScenarioImageEntity_init ''birds'' ?bird ?C = Inl ValueError"
    "ScenarioImageProperty_init ''birds'' ?bird ?C = Inl ValueError"
    by blast+
  from instance_D small built
  have D: "ScenarioImageEntity_init ''birds'' ?bird ?D = Inl ValueError"
    "\<exists>b. evaluate (ScenarioImageProperty ?leaf) ?sess = Inr b"
    by blast+
  from A B C D show ?thesis by blast
qed

section \<open>Absent perception data\<close>

text \<open>
  C5. A \<^verbatim>\<open>ScenarioImageEntity\<close> leaf and a \<^verbatim>\<open>ScenarioImageProperty\<close> leaf, whatever their
  attributes, evaluate to \<^verbatim>\<open>False\<close> on a session whose \<^verbatim>\<open>image_prediction\<close> is \<^verbatim>\<open>None\<close>,
  and no exception is raised.
\<close>

theorem leaves_false_without_snapshot:
  assumes "session_image_prediction sess = None"
  shows "ScenarioImageEntity_evaluate entity_leaf sess = Inr False
       \<and> ScenarioImageProperty_evaluate property_leaf sess = Inr False
       \<and> evaluate (ScenarioImageEntity entity_leaf) sess = Inr False
       \<and> evaluate (ScenarioImageProperty property_leaf) sess = Inr False"
  using assms
  by (simp add: ScenarioImageEntity_evaluate_def ScenarioImageProperty_evaluate_def)

theorem leaves_false_without_snapshot_witness:
  "session_image_prediction \<lparr>session_image_prediction = None\<rparr> = None
   \<and> ScenarioImageEntity_evaluate
        \<lparr>sie_name = ''two cats'',
         sie_image_entity = \<lparr>req_class = ImageEntity, req_name = ''cat'', req_attributes = []\<rparr>,
         sie_attributes = [\<lparr>attr_name = ''score'', attr_value = PyFloat (1 / 2)\<rparr>,
                           \<lparr>attr_name = ''min'', attr_value = PyInt 2\<rparr>,
                           \<lparr>attr_name = ''max'', attr_value = PyInt 0\<rparr>]\<rparr>
        \<lparr>session_image_prediction = None\<rparr> = Inr False
   \<and> ScenarioImageProperty_evaluate
        \<lparr>sip_name = ''dark'',
         sip_image_property = \<lparr>req_class = ImageProperty, req_name = ''dark'', req_attributes = []\<rparr>,
         sip_attributes = [\<lparr>attr_name = ''score'', attr_value = PyFloat (7 / 10)\<rparr>]\<rparr>
        \<lparr>session_image_prediction = None\<rparr> = Inr False"
  using leaves_false_without_snapshot
    [of "\<lparr>session_image_prediction = None\<rparr>"
        "\<lparr>sie_name = ''two cats'',
          sie_image_entity = \<lparr>req_class = ImageEntity, req_name = ''cat'', req_attributes = []\<rparr>,
          sie_attributes = [\<lparr>attr_name = ''score'', attr_value = PyFloat (1 / 2)\<rparr>,
                            \<lparr>attr_name = ''min'', attr_value = PyInt 2\<rparr>,
                            \<lparr>attr_name = ''max'', attr_value = PyInt 0\<rparr>]\<rparr>"
        "\<lparr>sip_name = ''dark'',
          sip_image_property = \<lparr>req_class = ImageProperty, req_name = ''dark'', req_attributes = []\<rparr>,
          sip_attributes = [\<lparr>attr_name = ''score'', attr_value = PyFloat (7 / 10)\<rparr>]\<rparr>"]
  by simp

section \<open>Identity of perception entities\<close>

text \<open>
  C8. Equality and hash of perception entities depend on the name only: two values of the
  same class with the same name are equal (in both directions) and have the same hash,
  whatever attributes they carry; equality of two values of the same class is equality of
  their names; a value of the other class, or any object that is not a perception entity,
  is never equal.
\<close>

theorem ImageRequirement_identity_by_name:
  "(req_class a = req_class b \<and> req_name a = req_name b \<longrightarrow>
      ImageRequirement_eq a (Requirement b) \<and> ImageRequirement_eq b (Requirement a)
      \<and> ImageRequirement_hash hash_str a = ImageRequirement_hash hash_str b)
   \<and> (req_class a = req_class b \<longrightarrow>
        ImageRequirement_eq a (Requirement b) = (req_name a = req_name b))
   \<and> (req_class a \<noteq> req_class b \<longrightarrow> \<not> ImageRequirement_eq a (Requirement b))
   \<and> \<not> ImageRequirement_eq a (Plain v)"
  by (auto simp add: ImageRequirement_eq_def ImageRequirement_hash_def)

theorem ImageRequirement_identity_by_name_witness:
  "ImageRequirement_eq
     \<lparr>req_class = ImageEntity, req_name = ''cat'', req_attributes = []\<rparr>
     (Requirement \<lparr>req_class = ImageEntity, req_name = ''cat'',
                   req_attributes = [\<lparr>attr_name = ''description'', attr_value = PyStr ''a cat''\<rparr>]\<rparr>)
   \<and> ImageRequirement_hash (\<lambda>s. int (length s))
        \<lparr>req_class = ImageEntity, req_name = ''cat'', req_attributes = []\<rparr>
      = ImageRequirement_hash (\<lambda>s. int (length s))
          \<lparr>req_class = ImageEntity, req_name = ''cat'',
            req_attributes = [\<lparr>attr_name = ''description'', attr_value = PyStr ''a cat''\<rparr>]\<rparr>
   \<and> \<not> ImageRequirement_eq
          \<lparr>req_class = ImageEntity, req_name = ''cat'', req_attributes = []\<rparr>
          (Requirement \<lparr>req_class = ImageProperty, req_name = ''cat'', req_attributes = []\<rparr>)"
  using ImageRequirement_identity_by_name
    [of "\<lparr>req_class = ImageEntity, req_name = ''cat'', req_attributes = []\<rparr>"
        "\<lparr>req_class = ImageEntity, req_name = ''cat'',
          req_attributes = [\<lparr>attr_name = ''description'', attr_value = PyStr ''a cat''\<rparr>]\<rparr>"
        "\<lambda>s. int (length s)" PyNone]
    ImageRequirement_identity_by_name
    [of "\<lparr>req_class = ImageEntity, req_name = ''cat'', req_attributes = []\<rparr>"
        "\<lparr>req_class = ImageProperty, req_name = ''cat'', req_attributes = []\<rparr>"
        "\<lambda>s. int (length s)" PyNone]
  by simp

section \<open>Event predicates and unset flags\<close>

text \<open>
  C10. On every session whose \<^verbatim>\<open>flags\<close> map \<^verbatim>\<open>predicted_intent\<close> to \<^verbatim>\<open>False\<close>,
  \<^verbatim>\<open>intent_matched\<close> ends without a \<^verbatim>\<open>return\<close>: its value is \<^verbatim>\<open>None\<close>, which is not the
  boolean \<^verbatim>\<open>False\<close>.
\<close>

theorem intent_matched_falls_through:
  assumes "flags sess ''predicted_intent'' = Some False"
  shows "intent_matched sess event_params = Inr None
       \<and> intent_matched sess event_params \<noteq> Inr (Some False)"
  using assms by (simp add: intent_matched_def subscript_def on_success_def)

theorem intent_matched_falls_through_witness:
  "flags \<lparr>flags = [''predicted_intent'' \<mapsto> False], predicted_intent = None,
          received_file = None,
          bot_image_prediction = (None :: nat bot_image_prediction option)\<rparr>
     ''predicted_intent'' = Some False
   \<and> intent_matched
        \<lparr>flags = [''predicted_intent'' \<mapsto> False], predicted_intent = None,
          received_file = None,
          bot_image_prediction = (None :: nat bot_image_prediction option)\<rparr>
        \<lparr>param_intent = Some \<lparr>intent_name = ''greeting''\<rparr>, param_allowed_types = None,
          param_image_object = None, param_score = None\<rparr> = Inr None"
  using intent_matched_falls_through
    [of "\<lparr>flags = [''predicted_intent'' \<mapsto> False], predicted_intent = None,
           received_file = None,
           bot_image_prediction = (None :: nat bot_image_prediction option)\<rparr>"
        "\<lparr>param_intent = Some \<lparr>intent_name = ''greeting''\<rparr>, param_allowed_types = None,
           param_image_object = None, param_score = None\<rparr>"]
  by simp

text \<open>
  C4. Each of \<^verbatim>\<open>intent_matched\<close>, \<^verbatim>\<open>file_received\<close> and \<^verbatim>\<open>image_object_detected\<close>
  is to return \<^verbatim>\<open>False\<close>, without raising, when its flag is not set. On the session
  whose three flags are all \<^verbatim>\<open>False\<close>, \<^verbatim>\<open>file_received\<close> and \<^verbatim>\<open>image_object_detected\<close>
  return \<^verbatim>\<open>False\<close>, while \<^verbatim>\<open>intent_matched\<close> returns \<^verbatim>\<open>None\<close>.
\<close>

theorem intent_matched_unset_flag_not_False:
  "intent_matched
     \<lparr>flags = [''predicted_intent'' \<mapsto> False, ''file'' \<mapsto> False,
               ''image_prediction'' \<mapsto> False],
       predicted_intent = None, received_file = None,
       bot_image_prediction = (None :: string bot_image_prediction option)\<rparr>
     \<lparr>param_intent = Some \<lparr>intent_name = ''help''\<rparr>, param_allowed_types = None,
       param_image_object = None, param_score = None\<rparr> = Inr None
   \<and> file_received
     \<lparr>flags = [''predicted_intent'' \<mapsto> False, ''file'' \<mapsto> False,
               ''image_prediction'' \<mapsto> False],
       predicted_intent = None, received_file = None,
       bot_image_prediction = (None :: string bot_image_prediction option)\<rparr>
     \<lparr>param_intent = None, param_allowed_types = None,
       param_image_object = None, param_score = None\<rparr> = Inr False
   \<and> image_object_detected (\<lambda>a b. a = b)
     \<lparr>flags = [''predicted_intent'' \<mapsto> False, ''file'' \<mapsto> False,
               ''image_prediction'' \<mapsto> False],
       predicted_intent = None, received_file = None,
       bot_image_prediction = (None :: string bot_image_prediction option)\<rparr>
     \<lparr>param_intent = None, param_allowed_types = None,
       param_image_object = Some ''cat'', param_score = Some (1 / 2)\<rparr> = Inr False"
  by (simp add: intent_matched_def file_received_def image_object_detected_def
      subscript_def on_success_def)

end
